theory Spec2Isabelle
  imports Main "HOL-Library.Word"
begin

unbundle bit_operations_syntax

section \<open>The value representation of \<^verbatim>\<open>strada_runtime.h\<close>\<close>

text \<open>
  A \<^verbatim>\<open>StradaValue *\<close> is an address or \<^verbatim>\<open>NULL\<close>. A \<^verbatim>\<open>const char *\<close> argument is the
  character sequence before its terminator, or \<^verbatim>\<open>NULL\<close>. Sizes (\<^verbatim>\<open>size_t\<close>) are natural
  numbers: no container of this model reaches \<open>2^64\<close> entries.
\<close>

type_synonym addr = nat
type_synonym sv_ptr = "addr option"

text \<open>\<^verbatim>\<open>struct StradaArray\<close>: \<open>elements\<close> holds the first \<^verbatim>\<open>size\<close> slots of the buffer.\<close>

record StradaArray =
  elements :: "sv_ptr list"
  capacity :: nat
  a_refcount :: int

text \<open>
  \<^verbatim>\<open>struct StradaHash\<close>: \<open>buckets\<close> lists each chain from its head; \<^verbatim>\<open>num_buckets\<close> is the
  length of \<open>buckets\<close>.
\<close>

type_synonym StradaHashEntry = "string \<times> sv_ptr"

record StradaHash =
  buckets :: "StradaHashEntry list list"
  num_entries :: nat
  h_refcount :: int

text \<open>
  \<^verbatim>\<open>struct StradaClosure\<close>: \<open>captures\<close> is \<^verbatim>\<open>NULL\<close> or the array of the addresses of the
  capture cells, each a cell that holds one \<^verbatim>\<open>StradaValue *\<close>.
\<close>

record StradaClosure =
  func_ptr :: nat
  param_count :: int
  capture_count :: int
  captures :: "nat list option"

text \<open>
  The type tag together with the member of the union it selects. A \<^verbatim>\<open>double\<close> is kept
  as its 64 bits (IEEE 754 binary64). The bytes of a string are those of the buffer
  \<^verbatim>\<open>pv\<close> before the terminator the constructor wrote, so that a string made by
  \<^verbatim>\<open>strada_new_str_len\<close> may hold NUL bytes.
\<close>

datatype StradaData =
    STRADA_UNDEF
  | STRADA_INT "64 word"
  | STRADA_NUM "64 word"
  | STRADA_STR "string option"
  | STRADA_ARRAY "StradaArray option"
  | STRADA_HASH "StradaHash option"
  | STRADA_REF sv_ptr
  | STRADA_FILEHANDLE "nat option"
  | STRADA_REGEX "nat option"
  | STRADA_SOCKET int
  | STRADA_CSTRUCT "nat option"
  | STRADA_CPOINTER "nat option"
  | STRADA_CLOSURE "StradaClosure option"

text \<open>\<^verbatim>\<open>struct StradaValue\<close>; \<^verbatim>\<open>refcount\<close> is a C \<^verbatim>\<open>int\<close>.\<close>

record StradaValue =
  data :: StradaData
  refcount :: "32 word"
  blessed_package :: "string option"

text \<open>
  The heap of values: address \<open>a\<close> is allocated when \<open>a\<close> is below the length and the
  slot is not \<open>None\<close>; \<^verbatim>\<open>malloc\<close> takes the next address.
\<close>

type_synonym heap = "StradaValue option list"

definition cell :: "heap \<Rightarrow> addr \<Rightarrow> StradaValue option" where
  "cell h a = (if a < length h then h ! a else None)"

definition malloc_value :: "heap \<Rightarrow> StradaValue \<Rightarrow> addr \<times> heap" where
  "malloc_value h v = (length h, h @ [Some v])"

definition strada_new_undef :: "heap \<Rightarrow> sv_ptr \<times> heap" where
  "strada_new_undef h =
     (let (a, h') = malloc_value h \<lparr>data = STRADA_UNDEF, refcount = 1, blessed_package = None\<rparr>
      in (Some a, h'))"

section \<open>Array operations\<close>

text \<open>The index is the value of the \<^verbatim>\<open>int64_t\<close> argument.\<close>

definition strada_array_length :: "StradaArray option \<Rightarrow> nat" where
  "strada_array_length av = (case av of None \<Rightarrow> 0 | Some a \<Rightarrow> length (elements a))"

definition strada_array_get :: "heap \<Rightarrow> StradaArray option \<Rightarrow> int \<Rightarrow> sv_ptr \<times> heap" where
  "strada_array_get h av idx =
     (case av of
        None \<Rightarrow> strada_new_undef h
      | Some a \<Rightarrow>
          (let idx' = (if idx < 0 then int (length (elements a)) + idx else idx)
           in if idx' < 0 \<or> nat idx' \<ge> length (elements a) then strada_new_undef h
              else (elements a ! nat idx', h)))"

text \<open>
  \<^verbatim>\<open>strada_array_pop\<close> and \<^verbatim>\<open>strada_array_shift\<close> change the array in place: the model
  returns the array after the call next to the result.
\<close>

definition strada_array_pop ::
  "heap \<Rightarrow> StradaArray option \<Rightarrow> (sv_ptr \<times> heap) \<times> StradaArray option" where
  "strada_array_pop h av =
     (case av of
        None \<Rightarrow> (strada_new_undef h, av)
      | Some a \<Rightarrow>
          (if length (elements a) = 0 then (strada_new_undef h, av)
           else ((last (elements a), h), Some (a\<lparr>elements := butlast (elements a)\<rparr>))))"

definition strada_array_shift ::
  "heap \<Rightarrow> StradaArray option \<Rightarrow> (sv_ptr \<times> heap) \<times> StradaArray option" where
  "strada_array_shift h av =
     (case av of
        None \<Rightarrow> (strada_new_undef h, av)
      | Some a \<Rightarrow>
          (if length (elements a) = 0 then (strada_new_undef h, av)
           else ((hd (elements a), h), Some (a\<lparr>elements := tl (elements a)\<rparr>))))"

section \<open>Hash operations\<close>

text \<open>
  \<^verbatim>\<open>strada_hash_string\<close>: \<^verbatim>\<open>unsigned int hash\<close> wraps at 32 bits; \<^verbatim>\<open>int c = *str++\<close> reads a
  \<^verbatim>\<open>char\<close>, which is signed on the x86-64 target the runtime names.
\<close>

fun hash_string_loop :: "32 word \<Rightarrow> string \<Rightarrow> 32 word" where
  "hash_string_loop hash [] = hash"
| "hash_string_loop hash (c # str) =
     hash_string_loop ((push_bit 5 hash + hash) + scast (of_char c :: 8 word)) str"

definition strada_hash_string :: "string \<Rightarrow> 32 word" where
  "strada_hash_string str = hash_string_loop 5381 str"

definition bucket_of :: "nat \<Rightarrow> string \<Rightarrow> nat" where
  "bucket_of n key = unat (strada_hash_string key) mod n"

text \<open>A call of \<^verbatim>\<open>strada_incref\<close> or of \<^verbatim>\<open>strada_decref\<close>, with its argument.\<close>

datatype rc_call = Incref sv_ptr | Decref sv_ptr

text \<open>The rehash loop of \<^verbatim>\<open>strada_hash_resize\<close>: each entry goes to the head of its new chain.\<close>

fun rehash_entries ::
  "nat \<Rightarrow> StradaHashEntry list \<Rightarrow> StradaHashEntry list list \<Rightarrow> StradaHashEntry list list" where
  "rehash_entries n [] nb = nb"
| "rehash_entries n (e # es) nb =
     (let bucket = bucket_of n (fst e)
      in rehash_entries n es (nb[bucket := e # nb ! bucket]))"

definition strada_hash_resize :: "StradaHash \<Rightarrow> StradaHash" where
  "strada_hash_resize hv =
     (let new_num_buckets = length (buckets hv) * 2
      in hv\<lparr>buckets := rehash_entries new_num_buckets (concat (buckets hv))
                          (replicate new_num_buckets [])\<rparr>)"

text \<open>The chain walks: the first entry whose key compares equal is the one found.\<close>

fun chain_find :: "StradaHashEntry list \<Rightarrow> string \<Rightarrow> sv_ptr option" where
  "chain_find [] key = None"
| "chain_find (e # es) key = (if fst e = key then Some (snd e) else chain_find es key)"

fun chain_replace :: "StradaHashEntry list \<Rightarrow> string \<Rightarrow> sv_ptr \<Rightarrow> StradaHashEntry list" where
  "chain_replace [] key sv = []"
| "chain_replace (e # es) key sv =
     (if fst e = key then (fst e, sv) # es else e # chain_replace es key sv)"

fun chain_unlink :: "StradaHashEntry list \<Rightarrow> string \<Rightarrow> StradaHashEntry list" where
  "chain_unlink [] key = []"
| "chain_unlink (e # es) key = (if fst e = key then es else e # chain_unlink es key)"

definition strada_hash_get :: "heap \<Rightarrow> StradaHash option \<Rightarrow> string option \<Rightarrow> sv_ptr \<times> heap" where
  "strada_hash_get h hv key =
     (case (hv, key) of
        (Some t, Some k) \<Rightarrow>
          (case chain_find (buckets t ! bucket_of (length (buckets t)) k) k of
             Some v \<Rightarrow> (v, h)
           | None \<Rightarrow> strada_new_undef h)
      | _ \<Rightarrow> strada_new_undef h)"

definition strada_hash_exists :: "StradaHash option \<Rightarrow> string option \<Rightarrow> bool" where
  "strada_hash_exists hv key =
     (case (hv, key) of
        (Some t, Some k) \<Rightarrow>
          (case chain_find (buckets t ! bucket_of (length (buckets t)) k) k of
             Some v \<Rightarrow> True
           | None \<Rightarrow> False)
      | _ \<Rightarrow> False)"

text \<open>\<^verbatim>\<open>strada_hash_new\<close>, for a default capacity \<open>n\<close> (16 unless changed to another positive value).\<close>

definition strada_hash_new :: "nat \<Rightarrow> StradaHash" where
  "strada_hash_new n = \<lparr>buckets = replicate n [], num_entries = 0, h_refcount = 1\<rparr>"


text \<open>
  The walk shared by \<^verbatim>\<open>strada_hash_get\<close> and \<^verbatim>\<open>strada_hash_exists\<close>, and the invariant of
  the table: there is a bucket, every entry sits in the bucket its key hashes to, no
  chain holds a key twice, and \<^verbatim>\<open>num_entries\<close> counts the entries.
\<close>

definition hash_lookup :: "StradaHash \<Rightarrow> string \<Rightarrow> sv_ptr option" where
  "hash_lookup t k = chain_find (buckets t ! bucket_of (length (buckets t)) k) k"

definition chains_wf :: "nat \<Rightarrow> StradaHashEntry list list \<Rightarrow> bool" where
  "chains_wf n bs = (length bs = n \<and> 0 < n \<and>
     list_all (\<lambda>(i, c). list_all (\<lambda>e. bucket_of n (fst e) = i) c \<and> distinct (map fst c))
       (enumerate 0 bs))"

definition hash_wf :: "StradaHash \<Rightarrow> bool" where
  "hash_wf t = (chains_wf (length (buckets t)) (buckets t) \<and>
                num_entries t = length (concat (buckets t)))"

text \<open>A table with two buckets that holds the key \<open>''a''\<close> (whose hash is even).\<close>

definition example_table :: StradaHash where
  "example_table = \<lparr>buckets = [[(''a'', Some 0)], []], num_entries = 1, h_refcount = 1\<rparr>"

section \<open>The object system: packages, inheritance, method lookup\<close>

text \<open>
  A \<^verbatim>\<open>StradaMethod\<close> is a function pointer; \<^verbatim>\<open>strada_method_register\<close> refuses \<^verbatim>\<open>NULL\<close>, so
  a registered method is a plain address. \<^verbatim>\<open>OopPackage\<close> keeps its name, its parent
  names in the order they were added, and its method table in registration order.
  The registry is the prefix \<^verbatim>\<open>oop_packages[0 .. oop_package_count - 1]\<close>.
\<close>

type_synonym StradaMethod = nat

record OopPackage =
  p_name :: string
  parents :: "string list"
  methods :: "(string \<times> StradaMethod) list"

record oop_registry =
  oop_packages :: "OopPackage list"
  oop_initialized :: bool

text \<open>The conditions on which the object system prints a message and calls \<^verbatim>\<open>exit(1)\<close>.\<close>

datatype fatal =
    Too_many_packages
  | Too_many_parents
  | Too_many_methods
  | Invalid_SUPER_call
  | SUPER_on_unblessed
  | SUPER_package_not_found
  | SUPER_cannot_locate

definition OOP_MAX_PACKAGES :: nat where "OOP_MAX_PACKAGES = 256"
definition OOP_MAX_METHODS :: nat where "OOP_MAX_METHODS = 256"
definition OOP_MAX_NAME_LEN :: nat where "OOP_MAX_NAME_LEN = 256"
definition OOP_MAX_PARENTS :: nat where "OOP_MAX_PARENTS = 16"

text \<open>\<^verbatim>\<open>strncpy(dst, src, OOP_MAX_NAME_LEN - 1)\<close> followed by the terminator.\<close>

definition copy_name :: "string \<Rightarrow> string" where
  "copy_name s = take (OOP_MAX_NAME_LEN - 1) s"

definition strada_oop_init :: "oop_registry \<Rightarrow> oop_registry" where
  "strada_oop_init r =
     (if oop_initialized r then r else \<lparr>oop_packages = [], oop_initialized = True\<rparr>)"

fun oop_find_package :: "OopPackage list \<Rightarrow> string \<Rightarrow> OopPackage option" where
  "oop_find_package [] name = None"
| "oop_find_package (p # ps) name = (if p_name p = name then Some p else oop_find_package ps name)"

text \<open>
  \<^verbatim>\<open>oop_get_or_create_package\<close> returns a pointer into the registry: the model returns the
  index of that package next to the registry.
\<close>

fun package_index :: "OopPackage list \<Rightarrow> string \<Rightarrow> nat option" where
  "package_index [] name = None"
| "package_index (p # ps) name =
     (if p_name p = name then Some 0 else map_option Suc (package_index ps name))"

definition oop_get_or_create_package ::
  "OopPackage list \<Rightarrow> string \<Rightarrow> fatal + nat \<times> OopPackage list" where
  "oop_get_or_create_package ps name =
     (case package_index ps name of
        Some i \<Rightarrow> Inr (i, ps)
      | None \<Rightarrow>
          if length ps \<ge> OOP_MAX_PACKAGES then Inl Too_many_packages
          else Inr (length ps, ps @ [\<lparr>p_name = copy_name name, parents = [], methods = []\<rparr>]))"

definition strada_inherit ::
  "oop_registry \<Rightarrow> string option \<Rightarrow> string option \<Rightarrow> fatal + oop_registry" where
  "strada_inherit r child parent =
     (case (child, parent) of
        (Some c, Some p) \<Rightarrow>
          (let r1 = strada_oop_init r in
           case oop_get_or_create_package (oop_packages r1) c of
             Inl e \<Rightarrow> Inl e
           | Inr (i, ps1) \<Rightarrow>
               (let pkg = ps1 ! i in
                if p \<in> set (parents pkg) then Inr (r1\<lparr>oop_packages := ps1\<rparr>)
                else if length (parents pkg) \<ge> OOP_MAX_PARENTS then Inl Too_many_parents
                else
                  (case oop_get_or_create_package
                          (ps1[i := pkg\<lparr>parents := parents pkg @ [copy_name p]\<rparr>]) p of
                     Inl e \<Rightarrow> Inl e
                   | Inr (j, ps2) \<Rightarrow> Inr (r1\<lparr>oop_packages := ps2\<rparr>))))
      | _ \<Rightarrow> Inr r)"

text \<open>Replacing the function of the first method of that name, as the update loop does.\<close>

fun update_method ::
  "(string \<times> StradaMethod) list \<Rightarrow> string \<Rightarrow> StradaMethod \<Rightarrow> (string \<times> StradaMethod) list" where
  "update_method [] name func = []"
| "update_method (m # ms) name func =
     (if fst m = name then (fst m, func) # ms else m # update_method ms name func)"

definition strada_method_register ::
  "oop_registry \<Rightarrow> string option \<Rightarrow> string option \<Rightarrow> StradaMethod option \<Rightarrow>
   fatal + oop_registry" where
  "strada_method_register r package name func =
     (case (package, name, func) of
        (Some p, Some nm, Some f) \<Rightarrow>
          (let r1 = strada_oop_init r in
           case oop_get_or_create_package (oop_packages r1) p of
             Inl e \<Rightarrow> Inl e
           | Inr (i, ps1) \<Rightarrow>
               (let pkg = ps1 ! i in
                if length (methods pkg) \<ge> OOP_MAX_METHODS then Inl Too_many_methods
                else if nm \<in> fst ` set (methods pkg)
                then Inr (r1\<lparr>oop_packages := ps1[i := pkg\<lparr>methods := update_method (methods pkg) nm f\<rparr>]\<rparr>)
                else Inr (r1\<lparr>oop_packages := ps1[i := pkg\<lparr>methods := methods pkg @ [(copy_name nm, f)]\<rparr>]\<rparr>)))
      | _ \<Rightarrow> Inr r)"

text \<open>The loop over \<^verbatim>\<open>pkg->methods\<close>: the first entry of that name.\<close>

fun find_method :: "(string \<times> StradaMethod) list \<Rightarrow> string \<Rightarrow> StradaMethod option" where
  "find_method [] name = None"
| "find_method (m # ms) name = (if fst m = name then Some (snd m) else find_method ms name)"

text \<open>
  \<^verbatim>\<open>oop_lookup_method_in\<close> recurses through the parents and may not return: the first
  argument bounds the depth of the recursion, and \<open>None\<close> says that the bound was
  reached. The array \<^verbatim>\<open>visited\<close> has 64 slots and is shared by the whole search; a
  package met when it is full is not recorded. A result \<open>Some (None, _)\<close> is the
  \<^verbatim>\<open>NULL\<close> the C function returns.
\<close>

fun oop_lookup_method_in ::
    "nat \<Rightarrow> OopPackage list \<Rightarrow> string \<Rightarrow> string \<Rightarrow> string list \<Rightarrow>
     (StradaMethod option \<times> string list) option"
  and oop_lookup_parents ::
    "nat \<Rightarrow> OopPackage list \<Rightarrow> string list \<Rightarrow> string \<Rightarrow> string list \<Rightarrow>
     (StradaMethod option \<times> string list) option" where
  "oop_lookup_method_in 0 ps package method visited = None"
| "oop_lookup_method_in (Suc n) ps package method visited =
     (if package = [] then Some (None, visited)
      else if package \<in> set visited then Some (None, visited)
      else
        (let visited1 = (if length visited < 64 then visited @ [package] else visited) in
         case oop_find_package ps package of
           None \<Rightarrow> Some (None, visited1)
         | Some pkg \<Rightarrow>
             (case find_method (methods pkg) method of
                Some func \<Rightarrow> Some (Some func, visited1)
              | None \<Rightarrow> oop_lookup_parents n ps (parents pkg) method visited1)))"
| "oop_lookup_parents n ps [] method visited = Some (None, visited)"
| "oop_lookup_parents n ps (p # rest) method visited =
     (case oop_lookup_method_in n ps p method visited of
        None \<Rightarrow> None
      | Some (Some func, visited1) \<Rightarrow> Some (Some func, visited1)
      | Some (None, visited1) \<Rightarrow> oop_lookup_parents n ps rest method visited1)"

definition oop_lookup_method ::
  "nat \<Rightarrow> oop_registry \<Rightarrow> string option \<Rightarrow> string option \<Rightarrow> StradaMethod option option" where
  "oop_lookup_method fuel r package method =
     (case (package, method) of
        (Some p, Some m) \<Rightarrow>
          if \<not> oop_initialized r then Some None
          else map_option fst (oop_lookup_method_in fuel (oop_packages r) p m [])
      | _ \<Rightarrow> Some None)"

text \<open>
  \<^verbatim>\<open>strada_super_call\<close> up to the call \<^verbatim>\<open>func(obj, args)\<close>: the result is the method that
  is called, or the fatal error. The first argument is the tag of the receiver.
\<close>

fun super_search ::
  "nat \<Rightarrow> oop_registry \<Rightarrow> string list \<Rightarrow> string \<Rightarrow> StradaMethod option option" where
  "super_search fuel r [] method = Some None"
| "super_search fuel r (p # rest) method =
     (case oop_lookup_method fuel r (Some p) (Some method) of
        None \<Rightarrow> None
      | Some (Some func) \<Rightarrow> Some (Some func)
      | Some None \<Rightarrow> super_search fuel r rest method)"

definition strada_super_call ::
  "nat \<Rightarrow> oop_registry \<Rightarrow> StradaValue option \<Rightarrow> string option \<Rightarrow> string option \<Rightarrow>
   (fatal + StradaMethod) option" where
  "strada_super_call fuel r obj from_package method =
     (case (obj, method, from_package) of
        (Some ob, Some m, Some from) \<Rightarrow>
          (if blessed_package ob = None then Some (Inl SUPER_on_unblessed)
           else
             (let r1 = strada_oop_init r in
              case oop_find_package (oop_packages r1) from of
                None \<Rightarrow> Some (Inl SUPER_package_not_found)
              | Some pkg \<Rightarrow>
                  (case super_search fuel r1 (parents pkg) m of
                     None \<Rightarrow> None
                   | Some None \<Rightarrow> Some (Inl SUPER_cannot_locate)
                   | Some (Some func) \<Rightarrow> Some (Inr func))))
      | _ \<Rightarrow> Some (Inl Invalid_SUPER_call))"

text \<open>
  A registry with an inheritance cycle behind a chain of 64 packages: package \<open>i\<close> is
  named by \<open>i + 1\<close> letters, package \<open>i < 64\<close> inherits from package \<open>i + 1\<close>, and
  package 64 inherits from itself. No package defines a method.
\<close>

definition pkg_name :: "nat \<Rightarrow> string" where
  "pkg_name i = replicate (Suc i) CHR ''P''"

definition chain_package :: "nat \<Rightarrow> OopPackage" where
  "chain_package i = \<lparr>p_name = pkg_name i, parents = [pkg_name (min (Suc i) 64)], methods = []\<rparr>"

definition cyclic_registry :: oop_registry where
  "cyclic_registry = \<lparr>oop_packages = map chain_package [0..<65], oop_initialized = True\<rparr>"

text \<open>The calls \<^verbatim>\<open>strada_inherit(child, parent)\<close> of a program, in order.\<close>

fun inherit_all :: "oop_registry \<Rightarrow> (string \<times> string) list \<Rightarrow> fatal + oop_registry" where
  "inherit_all r [] = Inr r"
| "inherit_all r ((child, parent) # rest) =
     (case strada_inherit r (Some child) (Some parent) of
        Inl e \<Rightarrow> Inl e
      | Inr r1 \<Rightarrow> inherit_all r1 rest)"

text \<open>
  The diamond of the specification: \<open>A\<close>, \<open>B\<close> and \<open>C\<close> with parent \<open>A\<close>, \<open>D\<close> with parents
  \<open>B\<close> and \<open>C\<close>; \<open>A\<close> and \<open>C\<close> both define \<open>hello\<close>. And a chain \<open>A\<close>, \<open>B\<close> with parent
  \<open>A\<close>, \<open>C\<close> with parent \<open>B\<close>, where \<open>B\<close> defines nothing.
\<close>

definition diamond :: oop_registry where
  "diamond = \<lparr>oop_packages =
     [\<lparr>p_name = ''A'', parents = [], methods = [(''hello'', 1)]\<rparr>,
      \<lparr>p_name = ''B'', parents = [''A''], methods = [(''greet'', 2)]\<rparr>,
      \<lparr>p_name = ''C'', parents = [''A''], methods = [(''hello'', 3), (''greet'', 4)]\<rparr>,
      \<lparr>p_name = ''D'', parents = [''B'', ''C''], methods = []\<rparr>],
     oop_initialized = True\<rparr>"

definition chain3 :: oop_registry where
  "chain3 = \<lparr>oop_packages =
     [\<lparr>p_name = ''A'', parents = [], methods = [(''hello'', 1)]\<rparr>,
      \<lparr>p_name = ''B'', parents = [''A''], methods = []\<rparr>,
      \<lparr>p_name = ''C'', parents = [''B''], methods = [(''hello'', 3)]\<rparr>],
     oop_initialized = True\<rparr>"

definition blessed_ref :: "string \<Rightarrow> StradaValue" where
  "blessed_ref pkg = \<lparr>data = STRADA_REF (Some 0), refcount = 1, blessed_package = Some pkg\<rparr>"

definition cyclic_calls :: "(string \<times> string) list" where
  "cyclic_calls = map (\<lambda>i. (pkg_name i, pkg_name (min (Suc i) 64))) [0..<65]"

definition fresh_package :: "nat \<Rightarrow> OopPackage" where
  "fresh_package i = \<lparr>p_name = pkg_name i, parents = [], methods = []\<rparr>"

text \<open>
  The specification's words for \<^verbatim>\<open>SUPER::\<close>, "search only that context's direct parents
  (first match wins)": the first direct parent whose own method table defines the name.
\<close>

fun spec_first_defining_parent ::
  "OopPackage list \<Rightarrow> string list \<Rightarrow> string \<Rightarrow> StradaMethod option" where
  "spec_first_defining_parent ps [] method = None"
| "spec_first_defining_parent ps (p # rest) method =
     (case oop_find_package ps p of
        None \<Rightarrow> spec_first_defining_parent ps rest method
      | Some pkg \<Rightarrow>
          (case find_method (methods pkg) method of
             Some func \<Rightarrow> Some func
           | None \<Rightarrow> spec_first_defining_parent ps rest method))"

definition spec_super_dispatch :: "oop_registry \<Rightarrow> string \<Rightarrow> string \<Rightarrow> StradaMethod option" where
  "spec_super_dispatch r from_package method =
     (case oop_find_package (oop_packages r) from_package of
        None \<Rightarrow> None
      | Some pkg \<Rightarrow> spec_first_defining_parent (oop_packages r) (parents pkg) method)"

section \<open>Strings and conversions\<close>

text \<open>
  A C string read from a buffer ends at the first NUL byte. \<^verbatim>\<open>strada_new_str\<close> copies a C
  string; \<^verbatim>\<open>strada_new_str_len\<close> copies \<open>len\<close> bytes of a buffer that holds at least that
  many, NUL bytes included. \<^verbatim>\<open>struct_size\<close> of a string is the number of bytes kept.
\<close>

definition cstr :: "string \<Rightarrow> string" where
  "cstr bytes = takeWhile (\<lambda>c. c \<noteq> CHR 0x00) bytes"

definition strada_new_str :: "heap \<Rightarrow> string option \<Rightarrow> sv_ptr \<times> heap" where
  "strada_new_str h s =
     (let (a, h') = malloc_value h
            \<lparr>data = STRADA_STR (Some (case s of None \<Rightarrow> [] | Some t \<Rightarrow> cstr t)),
             refcount = 1, blessed_package = None\<rparr>
      in (Some a, h'))"

definition strada_new_str_len :: "heap \<Rightarrow> string option \<Rightarrow> nat \<Rightarrow> sv_ptr \<times> heap" where
  "strada_new_str_len h s len =
     (let (a, h') = malloc_value h
            \<lparr>data = STRADA_STR (Some (case s of None \<Rightarrow> []
                                      | Some t \<Rightarrow> if len > 0 then take len t else [])),
             refcount = 1, blessed_package = None\<rparr>
      in (Some a, h'))"

definition strada_new_int :: "heap \<Rightarrow> 64 word \<Rightarrow> sv_ptr \<times> heap" where
  "strada_new_int h i =
     (let (a, h') = malloc_value h \<lparr>data = STRADA_INT i, refcount = 1, blessed_package = None\<rparr>
      in (Some a, h'))"

text \<open>
  \<^verbatim>\<open>strada_str_len\<close>: the stored length when it is positive, else \<^verbatim>\<open>strlen\<close>. A result
  \<open>None\<close> of a function that reads through a pointer says that the pointer is not
  allocated (or, for a recursive function, that the call does not return).
\<close>

definition strada_str_len :: "heap \<Rightarrow> sv_ptr \<Rightarrow> nat option" where
  "strada_str_len h sv =
     (case sv of
        None \<Rightarrow> Some 0
      | Some a \<Rightarrow>
          (case cell h a of
             None \<Rightarrow> None
           | Some v \<Rightarrow>
               (case data v of
                  STRADA_STR pv \<Rightarrow>
                    (case pv of
                       None \<Rightarrow> Some 0
                     | Some bytes \<Rightarrow>
                         Some (if length bytes > 0 then length bytes else length (cstr bytes)))
                | _ \<Rightarrow> Some 0)))"

text \<open>
  What the C library and the compiler contribute to the conversions, taken as given:
  \<^verbatim>\<open>atoll\<close>, \<^verbatim>\<open>atof\<close>, the casts between \<^verbatim>\<open>int64_t\<close>, \<^verbatim>\<open>size_t\<close> and \<^verbatim>\<open>double\<close>, the text
  \<^verbatim>\<open>%g\<close> prints for a double, and the text \<^verbatim>\<open>snprintf\<close> prints for the pointer or
  descriptor a value holds (it depends on addresses).
\<close>

record platform =
  atoll :: "string \<Rightarrow> 64 word"
  atof :: "string \<Rightarrow> 64 word"
  int64_of_double :: "64 word \<Rightarrow> 64 word"
  double_of_int64 :: "64 word \<Rightarrow> 64 word"
  double_of_size :: "nat \<Rightarrow> 64 word"
  format_g :: "64 word \<Rightarrow> string"
  format_handle :: "StradaData \<Rightarrow> string"

text \<open>The doubles \<^verbatim>\<open>0.0\<close> and \<^verbatim>\<open>1.0\<close>, and the comparison \<^verbatim>\<open>nv != 0.0\<close>: true unless \<open>nv\<close> is
  \<open>+0.0\<close> or \<open>-0.0\<close> (a NaN compares unequal).\<close>

definition double_zero :: "64 word" where "double_zero = 0"
definition double_one :: "64 word" where "double_one = 0x3FF0000000000000"

definition double_nonzero :: "64 word \<Rightarrow> bool" where
  "double_nonzero nv = (nv AND 0x7FFFFFFFFFFFFFFF \<noteq> 0)"

text \<open>\<^verbatim>\<open>snprintf(buf, sizeof(buf), "%lld", iv)\<close>: the decimal digits, at most 20 characters.\<close>

fun show_nat :: "nat \<Rightarrow> string" where
  "show_nat n =
     (if n < 10 then [''0123456789'' ! n]
      else show_nat (n div 10) @ [''0123456789'' ! (n mod 10)])"

declare show_nat.simps [simp del]

definition show_int :: "int \<Rightarrow> string" where
  "show_int i = (if i < 0 then CHR ''-'' # show_nat (nat (- i)) else show_nat (nat i))"

definition strada_to_int :: "platform \<Rightarrow> heap \<Rightarrow> sv_ptr \<Rightarrow> 64 word option" where
  "strada_to_int P h sv =
     (case sv of
        None \<Rightarrow> Some 0
      | Some a \<Rightarrow>
          (case cell h a of
             None \<Rightarrow> None
           | Some v \<Rightarrow>
               Some (case data v of
                  STRADA_INT iv \<Rightarrow> iv
                | STRADA_NUM nv \<Rightarrow> int64_of_double P nv
                | STRADA_STR pv \<Rightarrow> (case pv of Some bytes \<Rightarrow> atoll P (cstr bytes) | None \<Rightarrow> 0)
                | STRADA_ARRAY av \<Rightarrow> of_nat (strada_array_length av)
                | STRADA_UNDEF \<Rightarrow> 0
                | _ \<Rightarrow> 0)))"

definition strada_to_num :: "platform \<Rightarrow> heap \<Rightarrow> sv_ptr \<Rightarrow> 64 word option" where
  "strada_to_num P h sv =
     (case sv of
        None \<Rightarrow> Some double_zero
      | Some a \<Rightarrow>
          (case cell h a of
             None \<Rightarrow> None
           | Some v \<Rightarrow>
               Some (case data v of
                  STRADA_INT iv \<Rightarrow> double_of_int64 P iv
                | STRADA_NUM nv \<Rightarrow> nv
                | STRADA_STR pv \<Rightarrow>
                    (case pv of Some bytes \<Rightarrow> atof P (cstr bytes) | None \<Rightarrow> double_zero)
                | STRADA_ARRAY av \<Rightarrow> double_of_size P (strada_array_length av)
                | STRADA_HASH hv \<Rightarrow> (if hv \<noteq> None then double_one else double_zero)
                | STRADA_REF rv \<Rightarrow> (if rv \<noteq> None then double_one else double_zero)
                | STRADA_UNDEF \<Rightarrow> double_zero
                | _ \<Rightarrow> double_zero)))"

definition strada_to_str :: "platform \<Rightarrow> heap \<Rightarrow> sv_ptr \<Rightarrow> string option" where
  "strada_to_str P h sv =
     (case sv of
        None \<Rightarrow> Some []
      | Some a \<Rightarrow>
          (case cell h a of
             None \<Rightarrow> None
           | Some v \<Rightarrow>
               Some (case data v of
                  STRADA_INT iv \<Rightarrow> show_int (sint iv)
                | STRADA_NUM nv \<Rightarrow> format_g P nv
                | STRADA_STR pv \<Rightarrow> (case pv of Some bytes \<Rightarrow> cstr bytes | None \<Rightarrow> [])
                | STRADA_ARRAY av \<Rightarrow> format_handle P (data v)
                | STRADA_HASH hv \<Rightarrow> format_handle P (data v)
                | STRADA_FILEHANDLE fh \<Rightarrow> format_handle P (data v)
                | STRADA_REGEX rx \<Rightarrow> format_handle P (data v)
                | STRADA_SOCKET sockfd \<Rightarrow> ''SOCKET('' @ show_int sockfd @ '')''
                | STRADA_CSTRUCT ptr \<Rightarrow> format_handle P (data v)
                | STRADA_CPOINTER ptr \<Rightarrow> format_handle P (data v)
                | STRADA_UNDEF \<Rightarrow> []
                | _ \<Rightarrow> [])))"

text \<open>
  \<^verbatim>\<open>strada_to_bool\<close> calls itself on the target of a reference; references can form a
  cycle (\<^verbatim>\<open>strada_deref_set\<close> can make a reference its own target), and then it does not
  return.
\<close>

partial_function (option) strada_to_bool :: "heap \<Rightarrow> sv_ptr \<Rightarrow> bool option" where
  "strada_to_bool h sv =
     (case sv of
        None \<Rightarrow> Some False
      | Some a \<Rightarrow>
          (case cell h a of
             None \<Rightarrow> None
           | Some v \<Rightarrow>
               (case data v of
                  STRADA_UNDEF \<Rightarrow> Some False
                | STRADA_INT iv \<Rightarrow> Some (iv \<noteq> 0)
                | STRADA_NUM nv \<Rightarrow> Some (double_nonzero nv)
                | STRADA_STR pv \<Rightarrow>
                    Some (case pv of
                            None \<Rightarrow> False
                          | Some bytes \<Rightarrow> cstr bytes \<noteq> [] \<and> cstr bytes \<noteq> ''0'')
                | STRADA_ARRAY av \<Rightarrow> Some (av \<noteq> None \<and> strada_array_length av > 0)
                | STRADA_HASH hv \<Rightarrow>
                    Some (case hv of None \<Rightarrow> False | Some t \<Rightarrow> num_entries t > 0)
                | STRADA_REF rv \<Rightarrow>
                    (if rv \<noteq> None then strada_to_bool h rv else Some False)
                | _ \<Rightarrow> Some True)))"

text \<open>The heap after \<^verbatim>\<open>strada_new_str_len("\0a", 2)\<close>, and a heap with one value of
  several kinds: Undef, Int 0, Int 7, the strings \<open>''0''\<close>, \<open>''x''\<close> and the empty one, an
  empty and a non-empty array, the doubles \<open>-0.0\<close> and \<open>1.0\<close>, a reference to the Int 7
  and a reference to that reference.\<close>

definition nul_a_heap :: heap where
  "nul_a_heap = [Some \<lparr>data = STRADA_STR (Some [CHR 0x00, CHR ''a'']), refcount = 1,
                       blessed_package = None\<rparr>]"

definition plain :: "StradaData \<Rightarrow> StradaValue option" where
  "plain d = Some \<lparr>data = d, refcount = 1, blessed_package = None\<rparr>"

definition sample_heap :: heap where
  "sample_heap =
     [plain STRADA_UNDEF, plain (STRADA_INT 0), plain (STRADA_INT 7),
      plain (STRADA_STR (Some ''0'')), plain (STRADA_STR (Some ''x'')), plain (STRADA_STR (Some [])),
      plain (STRADA_ARRAY (Some \<lparr>elements = [], capacity = 8, a_refcount = 1\<rparr>)),
      plain (STRADA_ARRAY (Some \<lparr>elements = [Some 2], capacity = 8, a_refcount = 1\<rparr>)),
      plain (STRADA_NUM 0x8000000000000000), plain (STRADA_NUM double_one),
      plain (STRADA_REF (Some 2)), plain (STRADA_REF (Some 10)),
      plain (STRADA_HASH (Some example_table))]"

section \<open>Exceptions\<close>

text \<open>
  The try stack is an array of \<^verbatim>\<open>STRADA_MAX_TRY_DEPTH\<close> contexts, each with its flag
  \<^verbatim>\<open>active\<close>, and the depth \<^verbatim>\<open>strada_try_depth\<close>; the current exception is the C string
  \<^verbatim>\<open>strada_exception_msg\<close> or \<^verbatim>\<open>NULL\<close>.
\<close>

definition STRADA_MAX_TRY_DEPTH :: nat where "STRADA_MAX_TRY_DEPTH = 64"

record exception_state =
  strada_try_active :: "bool list"
  strada_try_depth :: nat
  strada_exception_msg :: "string option"

definition initial_exception_state :: exception_state where
  "initial_exception_state =
     \<lparr>strada_try_active = replicate STRADA_MAX_TRY_DEPTH False, strada_try_depth = 0,
      strada_exception_msg = None\<rparr>"

text \<open>
  \<^verbatim>\<open>STRADA_TRY_PUSH\<close> yields the index of the frame whose jump buffer it returns, or
  \<open>None\<close> for \<^verbatim>\<open>NULL\<close>; \<^verbatim>\<open>STRADA_TRY_POP\<close> yields 1 or 0.
\<close>

definition STRADA_TRY_PUSH :: "exception_state \<Rightarrow> nat option \<times> exception_state" where
  "STRADA_TRY_PUSH s =
     (if strada_try_depth s < STRADA_MAX_TRY_DEPTH
      then (Some (strada_try_depth s),
            s\<lparr>strada_try_active := (strada_try_active s)[strada_try_depth s := True],
              strada_try_depth := strada_try_depth s + 1\<rparr>)
      else (None, s))"

definition STRADA_TRY_POP :: "exception_state \<Rightarrow> bool \<times> exception_state" where
  "STRADA_TRY_POP s =
     (if strada_try_depth s > 0
      then (True,
            s\<lparr>strada_try_active := (strada_try_active s)[strada_try_depth s - 1 := False],
              strada_try_depth := strada_try_depth s - 1\<rparr>)
      else (False, s))"

definition strada_in_try_block :: "exception_state \<Rightarrow> bool" where
  "strada_in_try_block s =
     (strada_try_depth s > 0 \<and> strada_try_active s ! (strada_try_depth s - 1))"

text \<open>How a throw leaves: \<^verbatim>\<open>longjmp\<close> to the buffer of a frame, or \<^verbatim>\<open>exit(1)\<close>.\<close>

datatype control = Longjmp nat | Exit

definition strada_throw :: "exception_state \<Rightarrow> string option \<Rightarrow> control \<times> exception_state" where
  "strada_throw s msg =
     (let s1 = s\<lparr>strada_exception_msg :=
                  Some (case msg of Some m \<Rightarrow> m | None \<Rightarrow> ''Unknown error'')\<rparr>
      in if strada_in_try_block s1 then (Longjmp (strada_try_depth s1 - 1), s1) else (Exit, s1))"

definition strada_throw_value ::
  "platform \<Rightarrow> heap \<Rightarrow> exception_state \<Rightarrow> sv_ptr \<Rightarrow> (control \<times> exception_state) option" where
  "strada_throw_value P h s sv =
     (case strada_to_str P h sv of
        None \<Rightarrow> None
      | Some msg \<Rightarrow>
          (let s1 = s\<lparr>strada_exception_msg := Some msg\<rparr>
           in if strada_in_try_block s1 then Some (Longjmp (strada_try_depth s1 - 1), s1)
              else Some (Exit, s1)))"

definition strada_get_exception :: "heap \<Rightarrow> exception_state \<Rightarrow> sv_ptr \<times> heap" where
  "strada_get_exception h s =
     (case strada_exception_msg s of
        Some msg \<Rightarrow> strada_new_str h (Some msg)
      | None \<Rightarrow> strada_new_str h (Some []))"

definition strada_clear_exception :: "exception_state \<Rightarrow> exception_state" where
  "strada_clear_exception s = s\<lparr>strada_exception_msg := None\<rparr>"

text \<open>
  The states the try stack reaches from the initial one by pushes, pops and throws:
  the array has its 64 slots, the depth is within it, and the frames below the depth
  are the active ones.
\<close>

definition try_stack_inv :: "exception_state \<Rightarrow> bool" where
  "try_stack_inv s =
     (length (strada_try_active s) = STRADA_MAX_TRY_DEPTH \<and>
      strada_try_depth s \<le> STRADA_MAX_TRY_DEPTH \<and>
      list_all (\<lambda>b. b) (take (strada_try_depth s) (strada_try_active s)))"

text \<open>The frames that are on the stack and active, nearest first.\<close>

definition active_frames :: "exception_state \<Rightarrow> nat list" where
  "active_frames s =
     filter (\<lambda>i. strada_try_active s ! i) (rev [0..<strada_try_depth s])"

text \<open>A platform for examples; the examples do not reach its functions.\<close>

definition example_platform :: platform where
  "example_platform =
     \<lparr>atoll = (\<lambda>s. 0), atof = (\<lambda>s. 0), int64_of_double = (\<lambda>d. 0), double_of_int64 = (\<lambda>i. 0),
      double_of_size = (\<lambda>n. 0), format_g = (\<lambda>d. []), format_handle = (\<lambda>d. [])\<rparr>"

definition int_42_heap :: heap where
  "int_42_heap = [Some \<lparr>data = STRADA_INT 42, refcount = 1, blessed_package = None\<rparr>]"

section \<open>Reference counting, release and destructors\<close>

text \<open>
  The state the memory functions work on: the heap of values; the cells that hold one
  \<^verbatim>\<open>StradaValue *\<close> each (the variables of the generated code and the capture cells of
  closures; \<open>None\<close> is a cell that is not allocated); the package registry; the flag
  \<^verbatim>\<open>oop_destroying\<close>. Two logs record what happens: \<open>freed\<close> gets the address of a value
  at each \<^verbatim>\<open>free(sv)\<close> that ends \<^verbatim>\<open>strada_free_value\<close>, \<open>destroyed\<close> gets the receiver and
  the method at each call \<^verbatim>\<open>destroy(obj, NULL)\<close>. \<^verbatim>\<open>free\<close> leaves the bytes of the block as
  they are.
\<close>

record runtime =
  cells :: heap
  slots :: "sv_ptr option list"
  registry :: oop_registry
  oop_destroying :: bool
  freed :: "addr list"
  destroyed :: "(addr \<times> StradaMethod) list"

text \<open>
  A native method is known by what it does to reference counts: the calls of
  \<^verbatim>\<open>strada_incref\<close> and \<^verbatim>\<open>strada_decref\<close> it makes, in order, given the receiver.
\<close>

type_synonym program = "StradaMethod \<Rightarrow> addr \<Rightarrow> rc_call list"

definition slot :: "sv_ptr option list \<Rightarrow> nat \<Rightarrow> sv_ptr option" where
  "slot ss c = (if c < length ss then ss ! c else None)"

definition set_value :: "runtime \<Rightarrow> addr \<Rightarrow> StradaValue \<Rightarrow> runtime" where
  "set_value rt a v = rt\<lparr>cells := (cells rt)[a := Some v]\<rparr>"

text \<open>\<^verbatim>\<open>__sync_add_and_fetch\<close> and \<^verbatim>\<open>__sync_sub_and_fetch\<close> on the \<^verbatim>\<open>int\<close> wrap around.\<close>

definition strada_incref :: "runtime \<Rightarrow> sv_ptr \<Rightarrow> runtime option" where
  "strada_incref rt sv =
     (case sv of
        None \<Rightarrow> Some rt
      | Some a \<Rightarrow>
          (case cell (cells rt) a of
             None \<Rightarrow> None
           | Some v \<Rightarrow> Some (set_value rt a (v\<lparr>refcount := refcount v + 1\<rparr>))))"

text \<open>
  \<^verbatim>\<open>strada_validate_blessed_package\<close> on a string the runtime allocated: between 1 and
  255 characters, all of them printable ASCII.
\<close>

definition strada_validate_blessed_package :: "string \<Rightarrow> bool" where
  "strada_validate_blessed_package pkg =
     (pkg \<noteq> [] \<and> length pkg < 256 \<and>
      list_all (\<lambda>c. 32 \<le> (of_char c :: nat) \<and> (of_char c :: nat) \<le> 126) pkg)"

text \<open>
  The calls of \<^verbatim>\<open>strada_decref\<close> in the \<^verbatim>\<open>switch\<close> of \<^verbatim>\<open>strada_free_value\<close>, with
  \<^verbatim>\<open>strada_free_array\<close> and \<^verbatim>\<open>strada_free_hash\<close>: a container releases its elements when
  its own count, decremented, is not positive.
\<close>

definition release_calls :: "sv_ptr option list \<Rightarrow> StradaValue \<Rightarrow> rc_call list" where
  "release_calls ss v =
     (case data v of
        STRADA_ARRAY av \<Rightarrow>
          (case av of
             None \<Rightarrow> []
           | Some arr \<Rightarrow> if a_refcount arr - 1 > 0 then [] else map Decref (elements arr))
      | STRADA_HASH hv \<Rightarrow>
          (case hv of
             None \<Rightarrow> []
           | Some t \<Rightarrow> if h_refcount t - 1 > 0 then [] else map (\<lambda>e. Decref (snd e)) (concat (buckets t)))
      | STRADA_REF rv \<Rightarrow> (if rv \<noteq> None then [Decref rv] else [])
      | STRADA_CLOSURE cl \<Rightarrow>
          (case cl of
             None \<Rightarrow> []
           | Some c \<Rightarrow>
               (case captures c of
                  None \<Rightarrow> []
                | Some caps \<Rightarrow>
                    concat (map (\<lambda>k. case slot ss k of
                                        Some (Some p) \<Rightarrow> [Decref (Some p)]
                                      | _ \<Rightarrow> []) caps)))
      | _ \<Rightarrow> [])"

definition is_reference :: "StradaData \<Rightarrow> bool" where
  "is_reference d = (case d of STRADA_REF rv \<Rightarrow> True | _ \<Rightarrow> False)"

definition clear_blessed :: "runtime \<Rightarrow> addr \<Rightarrow> runtime" where
  "clear_blessed rt a =
     (case cell (cells rt) a of
        None \<Rightarrow> rt
      | Some v \<Rightarrow> set_value rt a (v\<lparr>blessed_package := None\<rparr>))"

text \<open>
  \<^verbatim>\<open>strada_decref\<close>, \<^verbatim>\<open>strada_free_value\<close>, \<^verbatim>\<open>strada_call_destroy\<close> and the execution of a
  list of calls call each other, and a destructor or a chain of references may keep
  them going without end: the first argument bounds the nesting of
  \<^verbatim>\<open>strada_free_value\<close> (and the depth of the method lookup), and \<open>None\<close> says that the
  bound was reached or that memory that is not allocated was used.
\<close>

function strada_decref :: "nat \<Rightarrow> program \<Rightarrow> runtime \<Rightarrow> sv_ptr \<Rightarrow> runtime option"
  and strada_free_value :: "nat \<Rightarrow> program \<Rightarrow> runtime \<Rightarrow> addr \<Rightarrow> runtime option"
  and release_and_free :: "nat \<Rightarrow> program \<Rightarrow> runtime \<Rightarrow> addr \<Rightarrow> runtime option"
  and strada_call_destroy :: "nat \<Rightarrow> program \<Rightarrow> runtime \<Rightarrow> addr \<Rightarrow> runtime option"
  and run_calls :: "nat \<Rightarrow> program \<Rightarrow> runtime \<Rightarrow> rc_call list \<Rightarrow> runtime option" where
  "strada_decref n prog rt None = Some rt"
| "strada_decref n prog rt (Some a) =
     (case cell (cells rt) a of
        None \<Rightarrow> None
      | Some v \<Rightarrow>
          if sint (refcount v - 1) \<le> 0
          then strada_free_value n prog (set_value rt a (v\<lparr>refcount := refcount v - 1\<rparr>)) a
          else Some (set_value rt a (v\<lparr>refcount := refcount v - 1\<rparr>)))"
| "strada_free_value 0 prog rt a = None"
| "strada_free_value (Suc n) prog rt a =
     (case cell (cells rt) a of
        None \<Rightarrow> None
      | Some v \<Rightarrow>
          (case blessed_package v of
             None \<Rightarrow> release_and_free n prog rt a
           | Some pkg \<Rightarrow>
               if \<not> is_reference (data v) then release_and_free n prog (clear_blessed rt a) a
               else if \<not> strada_validate_blessed_package pkg
               then release_and_free n prog (clear_blessed rt a) a
               else (case strada_call_destroy n prog rt a of
                       None \<Rightarrow> None
                     | Some rt1 \<Rightarrow> release_and_free n prog (clear_blessed rt1 a) a)))"
| "release_and_free n prog rt a =
     (case cell (cells rt) a of
        None \<Rightarrow> None
      | Some v \<Rightarrow>
          (case run_calls n prog rt (release_calls (slots rt) v) of
             None \<Rightarrow> None
           | Some rt1 \<Rightarrow> Some (rt1\<lparr>freed := freed rt1 @ [a]\<rparr>)))"
| "strada_call_destroy n prog rt a =
     (case cell (cells rt) a of
        None \<Rightarrow> None
      | Some v \<Rightarrow>
          (case blessed_package v of
             None \<Rightarrow> Some rt
           | Some pkg \<Rightarrow>
               if oop_destroying rt then Some rt
               else if \<not> oop_initialized (registry rt) then Some rt
               else if \<not> strada_validate_blessed_package pkg then Some rt
               else
                 (case oop_lookup_method n (registry rt) (Some pkg) (Some ''DESTROY'') of
                    None \<Rightarrow> None
                  | Some None \<Rightarrow> Some rt
                  | Some (Some destroy) \<Rightarrow>
                      (case run_calls n prog
                              (rt\<lparr>oop_destroying := True,
                                 destroyed := destroyed rt @ [(a, destroy)]\<rparr>)
                              (prog destroy a) of
                         None \<Rightarrow> None
                       | Some rt1 \<Rightarrow> Some (rt1\<lparr>oop_destroying := False\<rparr>)))))"
| "run_calls n prog rt [] = Some rt"
| "run_calls n prog rt (Incref p # cs) =
     (case strada_incref rt p of
        None \<Rightarrow> None
      | Some rt1 \<Rightarrow> run_calls n prog rt1 cs)"
| "run_calls n prog rt (Decref p # cs) =
     (case strada_decref n prog rt p of
        None \<Rightarrow> None
      | Some rt1 \<Rightarrow> run_calls n prog rt1 cs)"
  by pat_completeness auto

termination
  by (relation "inv_image (less_than <*lex*> less_than <*lex*> less_than)
        (case_sum
           (case_sum (\<lambda>(n, prog, rt, sv). (n, 2::nat, 0::nat)) (\<lambda>(n, prog, rt, a). (n, 1, 0)))
           (case_sum (\<lambda>(n, prog, rt, a). (n, 4, 0))
              (case_sum (\<lambda>(n, prog, rt, a). (n, 4, 0))
                        (\<lambda>(n, prog, rt, cs). (n, 3, length cs)))))")
     auto



definition entries_of :: "addr \<Rightarrow> (addr \<times> StradaMethod) list \<Rightarrow> (addr \<times> StradaMethod) list" where
  "entries_of a log = filter (\<lambda>e. fst e = a) log"

text \<open>A state with one Int value owned once, and a program whose methods make no calls.\<close>

definition int_runtime :: runtime where
  "int_runtime =
     \<lparr>cells = [Some \<lparr>data = STRADA_INT 5, refcount = 1, blessed_package = None\<rparr>], slots = [],
      registry = \<lparr>oop_packages = [], oop_initialized = False\<rparr>, oop_destroying = False,
      freed = [], destroyed = []\<rparr>"

definition no_calls :: program where
  "no_calls f a = []"


section \<open>Blessing and closures\<close>

text \<open>
  \<^verbatim>\<open>strada_bless\<close>: returns \<open>ref\<close>; the model returns the state after the call, or the fatal
  error of \<^verbatim>\<open>oop_get_or_create_package\<close>. The tag is a copy of the whole name.
\<close>

definition strada_bless :: "runtime \<Rightarrow> sv_ptr \<Rightarrow> string option \<Rightarrow> (fatal + runtime) option" where
  "strada_bless rt ref package =
     (case (ref, package) of
        (Some a, Some pkg) \<Rightarrow>
          (case cell (cells rt) a of
             None \<Rightarrow> None
           | Some v \<Rightarrow>
               (let r1 = strada_oop_init (registry rt) in
                case oop_get_or_create_package (oop_packages r1) pkg of
                  Inl e \<Rightarrow> Some (Inl e)
                | Inr (i, ps) \<Rightarrow>
                    Some (Inr (set_value (rt\<lparr>registry := r1\<lparr>oop_packages := ps\<rparr>\<rparr>) a
                                 (v\<lparr>blessed_package := Some pkg\<rparr>)))))
      | _ \<Rightarrow> Some (Inr rt))"

text \<open>
  \<^verbatim>\<open>strada_deref_set\<close> writes the type and the content of \<open>new_value\<close> into the value
  the reference points to, in place: the count and the package tag of that value stay.
  The old string of the target is freed first; \<open>new_value\<close> is read after that, through
  a pointer that is not checked. Int, Num and the types of the \<^verbatim>\<open>default\<close> branch copy the
  union member; a string is copied by \<^verbatim>\<open>strdup\<close>; an array or a hash pointer that is not
  \<^verbatim>\<open>NULL\<close> is shared and \<open>new_value\<close> gets one more owner; the target of a reference gets
  one more owner.
\<close>

definition strada_deref_set :: "runtime \<Rightarrow> sv_ptr \<Rightarrow> sv_ptr \<Rightarrow> (sv_ptr \<times> runtime) option" where
  "strada_deref_set rt ref new_value =
     (case ref of
        None \<Rightarrow> Some (new_value, rt)
      | Some r \<Rightarrow>
          (case cell (cells rt) r of
             None \<Rightarrow> None
           | Some rv \<Rightarrow>
               (case data rv of
                  STRADA_REF target \<Rightarrow>
                    (case target of
                       None \<Rightarrow> Some (new_value, rt)
                     | Some t \<Rightarrow>
                         (case cell (cells rt) t of
                            None \<Rightarrow> None
                          | Some tv \<Rightarrow>
                              (let rt1 = (case data tv of
                                            STRADA_STR (Some bytes) \<Rightarrow>
                                              set_value rt t (tv\<lparr>data := STRADA_STR None\<rparr>)
                                          | _ \<Rightarrow> rt)
                               in case new_value of
                                    None \<Rightarrow> None
                                  | Some nv \<Rightarrow>
                                      (case (cell (cells rt1) nv, cell (cells rt1) t) of
                                         (Some new, Some tv1) \<Rightarrow>
                                           (case data new of
                                              STRADA_STR pv \<Rightarrow>
                                                Some (Some t,
                                                  set_value rt1 t (tv1\<lparr>data := STRADA_STR (map_option cstr pv)\<rparr>))
                                            | STRADA_ARRAY av \<Rightarrow>
                                                map_option (Pair (Some t))
                                                  (if av \<noteq> None
                                                   then strada_incref
                                                          (set_value rt1 t (tv1\<lparr>data := STRADA_ARRAY av\<rparr>))
                                                          new_value
                                                   else Some (set_value rt1 t (tv1\<lparr>data := STRADA_ARRAY av\<rparr>)))
                                            | STRADA_HASH hv \<Rightarrow>
                                                map_option (Pair (Some t))
                                                  (if hv \<noteq> None
                                                   then strada_incref
                                                          (set_value rt1 t (tv1\<lparr>data := STRADA_HASH hv\<rparr>))
                                                          new_value
                                                   else Some (set_value rt1 t (tv1\<lparr>data := STRADA_HASH hv\<rparr>)))
                                            | STRADA_REF rv2 \<Rightarrow>
                                                map_option (Pair (Some t))
                                                  (strada_incref
                                                     (set_value rt1 t (tv1\<lparr>data := STRADA_REF rv2\<rparr>)) rv2)
                                            | d \<Rightarrow> Some (Some t, set_value rt1 t (tv1\<lparr>data := d\<rparr>)))
                                       | _ \<Rightarrow> None))))
                | _ \<Rightarrow> Some (new_value, rt))))"

text \<open>
  An object and a reference to it: the value at address 0 is a reference (to the Int
  at address 3) with two owners, one of them the reference at address 1; address 2
  holds the Int 5. The program blesses the object into \<open>Counter\<close> and then assigns the
  Int 5 through the reference at address 1.
\<close>

definition object_runtime :: runtime where
  "object_runtime =
     \<lparr>cells = [Some \<lparr>data = STRADA_REF (Some 3), refcount = 2, blessed_package = None\<rparr>,
               Some \<lparr>data = STRADA_REF (Some 0), refcount = 1, blessed_package = None\<rparr>,
               Some \<lparr>data = STRADA_INT 5, refcount = 1, blessed_package = None\<rparr>,
               Some \<lparr>data = STRADA_INT 10, refcount = 1, blessed_package = None\<rparr>],
      slots = [],
      registry = \<lparr>oop_packages = [], oop_initialized = False\<rparr>, oop_destroying = False,
      freed = [], destroyed = []\<rparr>"

definition bless_then_deref_set :: "(sv_ptr \<times> runtime) option" where
  "bless_then_deref_set =
     (case strada_bless object_runtime (Some 0) (Some ''Counter'') of
        Some (Inr rt1) \<Rightarrow> strada_deref_set rt1 (Some 1) (Some 2)
      | _ \<Rightarrow> None)"






section \<open>Two objects with destructors\<close>

text \<open>
  Two blessed references, each the only owner of an Int: the object at address 0 is
  blessed into \<open>Outer\<close>, the object at address 1 into \<open>Inner\<close>. Both packages define
  \<open>DESTROY\<close>: the destructor of \<open>Outer\<close> (method 1) drops the last reference to the
  \<open>Inner\<close> object, the destructor of \<open>Inner\<close> (method 2) makes no call.
\<close>

definition nested_runtime :: runtime where
  "nested_runtime =
     \<lparr>cells = [Some \<lparr>data = STRADA_REF (Some 2), refcount = 1, blessed_package = Some ''Outer''\<rparr>,
               Some \<lparr>data = STRADA_REF (Some 3), refcount = 1, blessed_package = Some ''Inner''\<rparr>,
               Some \<lparr>data = STRADA_INT 10, refcount = 1, blessed_package = None\<rparr>,
               Some \<lparr>data = STRADA_INT 20, refcount = 1, blessed_package = None\<rparr>],
      slots = [],
      registry = \<lparr>oop_packages =
                    [\<lparr>p_name = ''Outer'', parents = [], methods = [(''DESTROY'', 1)]\<rparr>,
                     \<lparr>p_name = ''Inner'', parents = [], methods = [(''DESTROY'', 2)]\<rparr>],
                  oop_initialized = True\<rparr>,
      oop_destroying = False, freed = [], destroyed = []\<rparr>"

definition nested_program :: program where
  "nested_program m a = (if m = 1 then [Decref (Some 1)] else [])"

section \<open>Storing into and deleting from a hash\<close>

text \<open>
  \<^verbatim>\<open>strada_hash_set\<close> and \<^verbatim>\<open>strada_hash_delete\<close> change the table in place and call the
  reference counter: the model returns the table after the call next to the state of
  the memory. On a key that exists, \<^verbatim>\<open>strada_hash_set\<close> first calls \<^verbatim>\<open>strada_decref\<close> on
  the value stored, then stores \<open>sv\<close> and calls \<^verbatim>\<open>strada_incref\<close> on it.
\<close>

definition strada_hash_set ::
  "nat \<Rightarrow> program \<Rightarrow> runtime \<Rightarrow> StradaHash option \<Rightarrow> string option \<Rightarrow> sv_ptr \<Rightarrow>
   (StradaHash option \<times> runtime) option" where
  "strada_hash_set n prog rt hv key sv =
     (case (hv, key) of
        (Some t, Some k) \<Rightarrow>
          (let bucket = bucket_of (length (buckets t)) k;
               chain = buckets t ! bucket
           in case chain_find chain k of
                Some old \<Rightarrow>
                  (case strada_decref n prog rt old of
                     None \<Rightarrow> None
                   | Some rt1 \<Rightarrow>
                       (case strada_incref rt1 sv of
                          None \<Rightarrow> None
                        | Some rt2 \<Rightarrow>
                            Some (Some (t\<lparr>buckets := (buckets t)[bucket := chain_replace chain k sv]\<rparr>),
                                  rt2)))
              | None \<Rightarrow>
                  (case strada_incref rt sv of
                     None \<Rightarrow> None
                   | Some rt1 \<Rightarrow>
                       (let t1 = t\<lparr>buckets := (buckets t)[bucket := (k, sv) # chain],
                                   num_entries := num_entries t + 1\<rparr>
                        in Some (Some (if num_entries t1 * 4 > length (buckets t1) * 3
                                       then strada_hash_resize t1 else t1),
                                 rt1))))
      | _ \<Rightarrow> Some (hv, rt))"

definition strada_hash_delete ::
  "nat \<Rightarrow> program \<Rightarrow> runtime \<Rightarrow> StradaHash option \<Rightarrow> string option \<Rightarrow>
   (StradaHash option \<times> runtime) option" where
  "strada_hash_delete n prog rt hv key =
     (case (hv, key) of
        (Some t, Some k) \<Rightarrow>
          (let bucket = bucket_of (length (buckets t)) k;
               chain = buckets t ! bucket
           in case chain_find chain k of
                Some old \<Rightarrow>
                  (case strada_decref n prog rt old of
                     None \<Rightarrow> None
                   | Some rt1 \<Rightarrow>
                       Some (Some (t\<lparr>buckets := (buckets t)[bucket := chain_unlink chain k],
                                     num_entries := num_entries t - 1\<rparr>),
                             rt1))
              | None \<Rightarrow> Some (hv, rt))
      | _ \<Rightarrow> Some (hv, rt))"

section \<open>Hash tables: set, get, exists, delete and resize\<close>

lemma chains_wf_iff:
  "chains_wf n bs \<longleftrightarrow> length bs = n \<and> 0 < n \<and>
     (\<forall>i<n. (\<forall>e\<in>set (bs ! i). bucket_of n (fst e) = i) \<and> distinct (map fst (bs ! i)))"
  unfolding chains_wf_def list_all_iff
  by (fastforce simp: in_set_enumerate_eq)

lemma chain_find_map_of: "chain_find c k = map_of c k"
  by (induction c) auto

lemma map_of_chain_replace:
  "map_of c k \<noteq> None \<Longrightarrow> map_of (chain_replace c k v) = (map_of c)(k \<mapsto> v)"
  by (induction c) (auto simp: fun_eq_iff)

lemma fst_chain_replace: "map fst (chain_replace c k v) = map fst c"
  by (induction c) auto

lemma length_chain_replace: "length (chain_replace c k v) = length c"
  by (induction c) auto

lemma map_of_chain_unlink:
  "distinct (map fst c) \<Longrightarrow> map_of (chain_unlink c k) = (map_of c)(k := None)"
  by (induction c) (auto simp: fun_eq_iff map_of_eq_None_iff  image_iff)

lemma set_chain_unlink: "set (chain_unlink c k) \<subseteq> set c"
  by (induction c) auto

lemma distinct_chain_unlink: "distinct (map fst c) \<Longrightarrow> distinct (map fst (chain_unlink c k))"
proof (induction c)
  case Nil
  then show ?case by simp
next
  case (Cons e c)
  have "fst ` set (chain_unlink c k) \<subseteq> fst ` set c"
    using set_chain_unlink by (rule image_mono)
  with Cons show ?case by auto
qed

lemma length_chain_unlink: "map_of c k \<noteq> None \<Longrightarrow> Suc (length (chain_unlink c k)) = length c"
  by (induction c) (auto)

lemma length_concat_update:
  "i < length bs \<Longrightarrow> length (concat (bs[i := c])) + length (bs ! i) = length (concat bs) + length c"
  by (induction bs arbitrary: i) (auto split: nat.splits)


lemma bucket_of_less: "0 < n \<Longrightarrow> bucket_of n k < n"
  by (simp add: bucket_of_def)

lemma chains_wf_update:
  assumes "chains_wf n bs" "b < n" "\<forall>e\<in>set c. bucket_of n (fst e) = b" "distinct (map fst c)"
  shows "chains_wf n (bs[b := c])"
  unfolding chains_wf_iff
proof (intro conjI allI impI)
  show "length (bs[b := c]) = n" "0 < n" using assms by (simp_all add: chains_wf_iff)
next
  fix i assume i: "i < n"
  show "\<forall>e\<in>set (bs[b := c] ! i). bucket_of n (fst e) = i"
    using assms i by (cases "i = b") (simp_all add: chains_wf_iff)
  show "distinct (map fst (bs[b := c] ! i))"
    using assms i by (cases "i = b") (simp_all add: chains_wf_iff)
qed

lemma set_chain_replace: "set (chain_replace c k v) \<subseteq> insert (k, v) (set c)"
  by (induction c) auto

lemma chains_wf_replace:
  assumes "chains_wf n bs"
  shows "chains_wf n (bs[bucket_of n k := chain_replace (bs ! bucket_of n k) k v])"
proof (rule chains_wf_update[OF assms])
  have n: "0 < n" "length bs = n" using assms by (simp_all add: chains_wf_iff)
  show b: "bucket_of n k < n" using n by (simp add: bucket_of_less)
  show "\<forall>e\<in>set (chain_replace (bs ! bucket_of n k) k v). bucket_of n (fst e) = bucket_of n k"
    using assms b set_chain_replace[of "bs ! bucket_of n k" k v]
    by (fastforce simp: chains_wf_iff)
  show "distinct (map fst (chain_replace (bs ! bucket_of n k) k v))"
    using assms b by (simp add: fst_chain_replace chains_wf_iff)
qed

lemma chains_wf_cons:
  assumes "chains_wf n bs" "map_of (bs ! bucket_of n k) k = None"
  shows "chains_wf n (bs[bucket_of n k := (k, v) # bs ! bucket_of n k])"
proof (rule chains_wf_update[OF assms(1)])
  have n: "0 < n" "length bs = n" using assms by (simp_all add: chains_wf_iff)
  show b: "bucket_of n k < n" using n by (simp add: bucket_of_less)
  show "\<forall>e\<in>set ((k, v) # bs ! bucket_of n k). bucket_of n (fst e) = bucket_of n k"
    using assms b by (simp add: chains_wf_iff)
  show "distinct (map fst ((k, v) # bs ! bucket_of n k))"
    using assms b by (simp add: chains_wf_iff map_of_eq_None_iff)
qed

lemma chains_wf_unlink:
  assumes "chains_wf n bs"
  shows "chains_wf n (bs[bucket_of n k := chain_unlink (bs ! bucket_of n k) k])"
proof (rule chains_wf_update[OF assms])
  have n: "0 < n" "length bs = n" using assms by (simp_all add: chains_wf_iff)
  show b: "bucket_of n k < n" using n by (simp add: bucket_of_less)
  show "\<forall>e\<in>set (chain_unlink (bs ! bucket_of n k) k). bucket_of n (fst e) = bucket_of n k"
    using assms b set_chain_unlink[of "bs ! bucket_of n k" k]
    by (fastforce simp: chains_wf_iff)
  show "distinct (map fst (chain_unlink (bs ! bucket_of n k) k))"
    using assms b by (simp add: distinct_chain_unlink chains_wf_iff)
qed

lemma length_rehash_entries: "length (rehash_entries n es nb) = length nb"
  by (induction es arbitrary: nb) (auto simp: Let_def)

lemma rehash_entries_wf:
  assumes "chains_wf n nb" "distinct (map fst es)"
    "\<forall>e\<in>set es. map_of (nb ! bucket_of n (fst e)) (fst e) = None"
  shows "chains_wf n (rehash_entries n es nb) \<and>
         (\<forall>k. map_of (rehash_entries n es nb ! bucket_of n k) k =
               (case map_of es k of Some v \<Rightarrow> Some v | None \<Rightarrow> map_of (nb ! bucket_of n k) k))"
  using assms
proof (induction es arbitrary: nb)
  case Nil
  then show ?case by simp
next
  case (Cons e es)
  obtain k v where e: "e = (k, v)" by (cases e)
  let ?b = "bucket_of n k"
  let ?nb = "nb[?b := (k, v) # nb ! ?b]"
  from Cons.prems have n: "0 < n" "length nb = n" by (auto simp: chains_wf_iff)
  have wf': "chains_wf n ?nb"
    using chains_wf_cons[of n nb k v] Cons.prems by (simp add: e)
  have look: "map_of (?nb ! bucket_of n k') k' =
      (if k' = k then Some v else map_of (nb ! bucket_of n k') k')" for k'
    using n by (auto simp: nth_list_update bucket_of_less)
  have none: "\<forall>e'\<in>set es. map_of (?nb ! bucket_of n (fst e')) (fst e') = None"
    using Cons.prems by (auto simp: look e)
  from Cons.prems have d: "distinct (map fst es)" by simp
  note IH = Cons.IH[OF wf' d none]
  have notin: "map_of es k = None"
    using Cons.prems by (auto simp: e map_of_eq_None_iff)
  show ?case
    using IH by (auto simp: e Let_def look notin split: option.splits)
qed

lemma length_concat_rehash:
  "\<forall>e\<in>set es. bucket_of n (fst e) < length nb \<Longrightarrow>
   length (concat (rehash_entries n es nb)) = length es + length (concat nb)"
proof (induction es arbitrary: nb)
  case Nil
  then show ?case by simp
next
  case (Cons e es)
  let ?b = "bucket_of n (fst e)"
  have b: "?b < length nb" using Cons.prems by simp
  have "length (concat (nb[?b := e # nb ! ?b])) = Suc (length (concat nb))"
    using length_concat_update[OF b, of "e # nb ! ?b"] by simp
  then show ?case using Cons by (simp add: Let_def)
qed

lemma distinct_keys_concat:
  assumes "\<forall>i<length bs. (\<forall>e\<in>set (bs ! i). f (fst e) = i + off) \<and> distinct (map fst (bs ! i))"
  shows "distinct (map fst (concat bs))"
  using assms
proof (induction bs arbitrary: off)
  case Nil
  then show ?case by simp
next
  case (Cons c cs)
  have c: "(\<forall>e\<in>set c. f (fst e) = off) \<and> distinct (map fst c)"
    using Cons.prems[rule_format, of 0] by simp
  have cs: "\<forall>i<length cs. (\<forall>e\<in>set (cs ! i). f (fst e) = i + Suc off) \<and> distinct (map fst (cs ! i))"
    using Cons.prems by fastforce
  have "fst ` set c \<inter> fst ` set (concat cs) = {}"
  proof (rule ccontr)
    assume "fst ` set c \<inter> fst ` set (concat cs) \<noteq> {}"
    then obtain e e' where e: "e \<in> set c" "e' \<in> set (concat cs)" "fst e = fst e'"
      by fastforce
    from e(2) obtain c' where "c' \<in> set cs" "e' \<in> set c'" by auto
    then obtain i where "i < length cs" "e' \<in> set (cs ! i)"
      by (metis in_set_conv_nth)
    with cs have "f (fst e') = i + Suc off" by blast
    moreover have "f (fst e) = off" using c e by blast
    ultimately show False using e by simp
  qed
  then show ?case using c Cons.IH[OF cs] by simp
qed

lemma chains_wf_distinct_keys: "chains_wf n bs \<Longrightarrow> distinct (map fst (concat bs))"
  using distinct_keys_concat[of bs "bucket_of n" 0] by (simp add: chains_wf_iff)

lemma chains_wf_map_of_concat:
  assumes "chains_wf n bs"
  shows "map_of (concat bs) k = map_of (bs ! bucket_of n k) k"
proof -
  have d: "distinct (map fst (concat bs))" by (rule chains_wf_distinct_keys[OF assms])
  have b: "bucket_of n k < length bs" using assms by (simp add: chains_wf_iff bucket_of_less)
  have dk: "distinct (map fst (bs ! bucket_of n k))" using assms b by (simp add: chains_wf_iff)
  have mem: "(k, v) \<in> set (concat bs) \<longleftrightarrow> (k, v) \<in> set (bs ! bucket_of n k)" for v
  proof
    assume "(k, v) \<in> set (concat bs)"
    then obtain c' where "c' \<in> set bs" "(k, v) \<in> set c'" by auto
    then obtain i where i: "i < length bs" "(k, v) \<in> set (bs ! i)"
      by (metis in_set_conv_nth)
    with assms have "bucket_of n k = i" by (fastforce simp: chains_wf_iff)
    with i show "(k, v) \<in> set (bs ! bucket_of n k)" by simp
  next
    assume "(k, v) \<in> set (bs ! bucket_of n k)"
    then show "(k, v) \<in> set (concat bs)" using b by (auto intro: nth_mem)
  qed
  have "map_of (concat bs) k = Some v \<longleftrightarrow> map_of (bs ! bucket_of n k) k = Some v" for v
    unfolding map_of_eq_Some_iff[OF d] map_of_eq_Some_iff[OF dk] by (rule mem)
  then show ?thesis
    by (metis not_Some_eq)
qed


lemma hash_lookup_map_of: "hash_lookup t k = map_of (buckets t ! bucket_of (length (buckets t)) k) k"
  by (simp add: hash_lookup_def chain_find_map_of)

lemma hash_wf_new: "0 < n \<Longrightarrow> hash_wf (strada_hash_new n)"
  by (auto simp: hash_wf_def strada_hash_new_def chains_wf_iff)

lemma hash_resize_correct:
  assumes "hash_wf t"
  shows "hash_wf (strada_hash_resize t) \<and>
         length (buckets (strada_hash_resize t)) = 2 * length (buckets t) \<and>
         (\<forall>k. hash_lookup (strada_hash_resize t) k = hash_lookup t k)"
proof -
  let ?n = "length (buckets t)"
  let ?n' = "?n * 2"
  let ?nb = "replicate ?n' ([] :: StradaHashEntry list)"
  let ?es = "concat (buckets t)"
  let ?r = "rehash_entries ?n' ?es ?nb"
  from assms have wf: "chains_wf ?n (buckets t)" and ne: "num_entries t = length ?es"
    by (simp_all add: hash_wf_def)
  then have n: "0 < ?n" by (simp add: chains_wf_iff)
  have wfnb: "chains_wf ?n' ?nb" using n by (simp add: chains_wf_iff)
  have d: "distinct (map fst ?es)" by (rule chains_wf_distinct_keys[OF wf])
  have none: "\<forall>e\<in>set ?es. map_of (?nb ! bucket_of ?n' (fst e)) (fst e) = None"
    using n by (simp add: bucket_of_less)
  note R = rehash_entries_wf[OF wfnb d none]
  have len: "length ?r = ?n'" by (simp add: length_rehash_entries)
  have cnt: "length (concat ?r) = length ?es"
    using length_concat_rehash[of ?es ?n' ?nb] n by (simp add: bucket_of_less)
  have look: "map_of (?r ! bucket_of ?n' k) k = map_of (buckets t ! bucket_of ?n k) k" for k
    using R n by (simp add: chains_wf_map_of_concat[OF wf] bucket_of_less split: option.splits)
  have b: "buckets (strada_hash_resize t) = ?r" "num_entries (strada_hash_resize t) = num_entries t"
    by (simp_all add: strada_hash_resize_def Let_def)
  show ?thesis
    unfolding hash_wf_def hash_lookup_map_of b len
    using R look cnt ne by simp
qed

lemma filter_key_unique:
  "distinct (map fst xs) \<Longrightarrow> map_of xs k = Some v \<Longrightarrow> length (filter (\<lambda>e. fst e = k) xs) = 1"
proof (induction xs)
  case Nil
  then show ?case by simp
next
  case (Cons e xs)
  show ?case
  proof (cases "fst e = k")
    case True
    with Cons.prems have "k \<notin> fst ` set xs" by simp
    then have "\<forall>e'\<in>set xs. fst e' \<noteq> k" by (metis imageI)
    then have "filter (\<lambda>e. fst e = k) xs = []" by (simp add: filter_empty_conv)
    with True show ?thesis by simp
  next
    case False
    with Cons show ?thesis by (cases e) auto
  qed
qed

lemma hash_set_table:
  assumes "hash_wf t" "strada_hash_set n prog rt (Some t) (Some k) v = Some (hv', rt')"
  shows "\<exists>t'. hv' = Some t' \<and> hash_wf t' \<and>
           (\<forall>k'. hash_lookup t' k' = (if k' = k then Some v else hash_lookup t k')) \<and>
           (hash_lookup t k \<noteq> None \<longrightarrow>
              num_entries t' = num_entries t \<and> length (buckets t') = length (buckets t)) \<and>
           (hash_lookup t k = None \<longrightarrow> num_entries t' = num_entries t + 1 \<and>
              length (buckets t') =
                (if (num_entries t + 1) * 4 > length (buckets t) * 3
                 then 2 * length (buckets t) else length (buckets t)))"
proof -
  let ?n = "length (buckets t)"
  let ?b = "bucket_of ?n k"
  let ?c = "buckets t ! ?b"
  from assms have wf: "chains_wf ?n (buckets t)" and ne: "num_entries t = length (concat (buckets t))"
    by (simp_all add: hash_wf_def)
  then have n: "0 < ?n" by (simp add: chains_wf_iff)
  then have b: "?b < ?n" by (simp add: bucket_of_less)
  show ?thesis
  proof (cases "map_of ?c k")
    case (Some old)
    let ?t' = "t\<lparr>buckets := (buckets t)[?b := chain_replace ?c k v]\<rparr>"
    have eq: "hv' = Some ?t'"
      using Some assms(2)
      by (simp add: strada_hash_set_def Let_def chain_find_map_of split: option.splits)
    have wf': "chains_wf ?n (buckets ?t')"
      using chains_wf_replace[OF wf, of k v] by simp
    have cnt: "length (concat (buckets ?t')) = length (concat (buckets t))"
      using length_concat_update[OF b, of "chain_replace ?c k v"] by (simp add: length_chain_replace)
    have look: "hash_lookup ?t' k' = (if k' = k then Some v else hash_lookup t k')" for k'
      using b Some
      by (cases "bucket_of ?n k' = ?b")
         (auto simp: hash_lookup_map_of map_of_chain_replace)
    have "hash_wf ?t'" using wf' cnt ne by (simp add: hash_wf_def)
    with eq look Some show ?thesis by (simp add: hash_lookup_map_of)
  next
    case None
    let ?t1 = "t\<lparr>buckets := (buckets t)[?b := (k, v) # ?c], num_entries := num_entries t + 1\<rparr>"
    let ?t' = "if num_entries ?t1 * 4 > length (buckets ?t1) * 3 then strada_hash_resize ?t1 else ?t1"
    have eq: "hv' = Some ?t'"
      using None assms(2)
      by (auto simp: strada_hash_set_def Let_def chain_find_map_of split: option.splits)
    have wf1: "chains_wf ?n (buckets ?t1)"
      using chains_wf_cons[OF wf None, of v] by simp
    have cnt: "length (concat (buckets ?t1)) = length (concat (buckets t)) + 1"
      using length_concat_update[OF b, of "(k, v) # ?c"] by simp
    have look1: "hash_lookup ?t1 k' = (if k' = k then Some v else hash_lookup t k')" for k'
      using b None
      by (cases "bucket_of ?n k' = ?b") (auto simp: hash_lookup_map_of)
    have hwf1: "hash_wf ?t1" using wf1 cnt ne by (simp add: hash_wf_def)
    note R = hash_resize_correct[OF hwf1]
    have "hash_wf ?t'" using hwf1 R by simp
    moreover have "hash_lookup ?t' k' = (if k' = k then Some v else hash_lookup t k')" for k'
      using R look1 by simp
    moreover have "num_entries ?t' = num_entries t + 1"
      by (simp add: strada_hash_resize_def Let_def)
    moreover have "length (buckets ?t') =
        (if (num_entries t + 1) * 4 > ?n * 3 then 2 * ?n else ?n)"
      using R by simp
    ultimately show ?thesis using eq None
      by (simp only: hash_lookup_map_of[of t k, symmetric]) (simp add: hash_lookup_map_of)
  qed
qed

lemma hash_delete_table:
  assumes "hash_wf t" "strada_hash_delete n prog rt (Some t) (Some k) = Some (hv', rt')"
  shows "\<exists>t'. hv' = Some t' \<and> hash_wf t' \<and>
           (\<forall>k'. hash_lookup t' k' = (if k' = k then None else hash_lookup t k'))"
proof -
  let ?n = "length (buckets t)"
  let ?b = "bucket_of ?n k"
  let ?c = "buckets t ! ?b"
  from assms have wf: "chains_wf ?n (buckets t)" and ne: "num_entries t = length (concat (buckets t))"
    by (simp_all add: hash_wf_def)
  then have n: "0 < ?n" by (simp add: chains_wf_iff)
  then have b: "?b < ?n" by (simp add: bucket_of_less)
  have dc: "distinct (map fst ?c)" using wf b by (simp add: chains_wf_iff)
  show ?thesis
  proof (cases "map_of ?c k")
    case None
    then have "hv' = Some t"
      using assms(2) by (simp add: strada_hash_delete_def Let_def chain_find_map_of)
    with None assms(1) show ?thesis by (auto simp: hash_lookup_map_of)
  next
    case (Some old)
    let ?t' = "t\<lparr>buckets := (buckets t)[?b := chain_unlink ?c k], num_entries := num_entries t - 1\<rparr>"
    have eq: "hv' = Some ?t'"
      using Some assms(2)
      by (simp add: strada_hash_delete_def Let_def chain_find_map_of split: option.splits)
    have wf': "chains_wf ?n (buckets ?t')"
      using chains_wf_unlink[OF wf, of k] by simp
    have "Suc (length (chain_unlink ?c k)) = length ?c"
      using Some by (simp add: length_chain_unlink)
    then have cnt: "length (concat (buckets ?t')) = length (concat (buckets t)) - 1"
      using length_concat_update[OF b, of "chain_unlink ?c k"] by simp
    have look: "hash_lookup ?t' k' = (if k' = k then None else hash_lookup t k')" for k'
      using b
      by (cases "bucket_of ?n k' = ?b") (auto simp: hash_lookup_map_of map_of_chain_unlink[OF dc])
    have "hash_wf ?t'" using wf' cnt ne by (simp add: hash_wf_def)
    with eq look show ?thesis by simp
  qed
qed

lemma example_table_bucket: "bucket_of (Suc (Suc 0)) ''a'' = 0"
proof -
  have hs: "strada_hash_string ''a'' = 177670"
    by (simp add: strada_hash_string_def)
  have "bucket_of 2 ''a'' = 0"
    by (simp add: bucket_of_def hs)
  then show ?thesis by (simp add: numeral_2_eq_2)
qed

lemma example_table_wf: "hash_wf example_table"
  by (simp add: hash_wf_def chains_wf_def example_table_def example_table_bucket)

text \<open>
  C8 fails on the code. The table \<open>example_table\<close> is well formed and holds the key
  \<open>''a''\<close> with the value at address 0, whose only owner it is (count 1, nothing freed
  yet). Storing that same value under \<open>''a''\<close> again, as \<^verbatim>\<open>$h{a} = $h{a}\<close> does, frees it:
  \<^verbatim>\<open>strada_hash_set\<close> calls \<^verbatim>\<open>strada_decref\<close> on the stored value first, which brings the
  count to zero and frees the value, and then stores the pointer and increments the
  count in the freed block. Afterwards \<^verbatim>\<open>strada_hash_get\<close> still returns address 0, which
  is in the log of freed addresses: not the value that was stored.
\<close>

theorem hash_set_of_stored_value_frees_it:
  "hash_wf example_table \<and>
   cell (cells int_runtime) 0 =
     Some \<lparr>data = STRADA_INT 5, refcount = 1, blessed_package = None\<rparr> \<and>
   freed int_runtime = [] \<and>
   strada_hash_get (cells int_runtime) (Some example_table) (Some ''a'') =
     (Some 0, cells int_runtime) \<and>
   strada_hash_set 1 no_calls int_runtime (Some example_table) (Some ''a'') (Some 0) =
     Some (Some example_table, int_runtime\<lparr>freed := [0]\<rparr>) \<and>
   strada_hash_get (cells (int_runtime\<lparr>freed := [0]\<rparr>)) (Some example_table) (Some ''a'') =
     (Some 0, cells int_runtime) \<and>
   0 \<in> set (freed (int_runtime\<lparr>freed := [0]\<rparr>))"
proof -
  have c: "cell (cells int_runtime) 0 =
      Some \<lparr>data = STRADA_INT 5, refcount = 1, blessed_package = None\<rparr>"
    by (simp add: int_runtime_def cell_def)
  have f: "freed int_runtime = []" by (simp add: int_runtime_def)
  have g: "strada_hash_get h (Some example_table) (Some ''a'') = (Some 0, h)" for h
    by (simp add: strada_hash_get_def example_table_def example_table_bucket)
  have d: "strada_decref (Suc 0) no_calls int_runtime (Some 0) =
      Some (int_runtime\<lparr>cells := [Some \<lparr>data = STRADA_INT 5, refcount = 0, blessed_package = None\<rparr>],
                         freed := [0]\<rparr>)"
    by (simp add: int_runtime_def cell_def set_value_def release_calls_def)
  have i: "strada_incref
             (int_runtime\<lparr>cells := [Some \<lparr>data = STRADA_INT 5, refcount = 0, blessed_package = None\<rparr>],
                            freed := [0]\<rparr>) (Some 0) =
      Some (int_runtime\<lparr>freed := [0]\<rparr>)"
    by (simp add: strada_incref_def int_runtime_def cell_def set_value_def)
  have r: "chain_replace [(''a'', Some 0)] ''a'' (Some 0) = [(''a'', Some 0)]" by simp
  have s: "strada_hash_set 1 no_calls int_runtime (Some example_table) (Some ''a'') (Some 0) =
     Some (Some example_table, int_runtime\<lparr>freed := [0]\<rparr>)"
    by (simp add: strada_hash_set_def example_table_def example_table_bucket d i
        del: strada_decref.simps)
  show ?thesis
    using example_table_wf c f g[of "cells int_runtime"] s by simp
qed

section \<open>Reads of absent elements\<close>

lemma cell_append_old: "a < length h \<Longrightarrow> cell (h @ [x]) a = cell h a"
  by (simp add: cell_def nth_append)

lemma new_undef_fresh:
  "strada_new_undef h =
     (Some (length h), h @ [Some \<lparr>data = STRADA_UNDEF, refcount = 1, blessed_package = None\<rparr>])"
  by (simp add: strada_new_undef_def malloc_value_def)

text \<open>
  C10. A read of an absent element returns a newly allocated Undef value with reference
  count 1 and no package tag, at an address that was not allocated before, and leaves
  every allocated value as it was: \<^verbatim>\<open>strada_array_get\<close> with an index out of bounds after
  the negative index is resolved, \<^verbatim>\<open>strada_array_pop\<close> and \<^verbatim>\<open>strada_array_shift\<close> on an
  empty array (the array stays as it is), \<^verbatim>\<open>strada_hash_get\<close> of a key that does not exist,
  and each of them on a \<^verbatim>\<open>NULL\<close> container or key. The result is never \<^verbatim>\<open>NULL\<close>.
  \<^verbatim>\<open>strada_array_get\<close> and \<^verbatim>\<open>strada_hash_get\<close> do not write to their container at all.
\<close>

theorem absent_reads_return_fresh_undef:
  "strada_new_undef h =
     (Some (length h), h @ [Some \<lparr>data = STRADA_UNDEF, refcount = 1, blessed_package = None\<rparr>]) \<and>
   cell h (length h) = None \<and>
   cell (snd (strada_new_undef h)) (length h) =
     Some \<lparr>data = STRADA_UNDEF, refcount = 1, blessed_package = None\<rparr> \<and>
   (\<forall>a<length h. cell (snd (strada_new_undef h)) a = cell h a) \<and>
   ((if idx < 0 then int (length (elements av)) + idx else idx) < 0 \<or>
    int (length (elements av)) \<le> (if idx < 0 then int (length (elements av)) + idx else idx)
      \<longrightarrow> strada_array_get h (Some av) idx = strada_new_undef h) \<and>
   (elements av = [] \<longrightarrow>
      strada_array_pop h (Some av) = (strada_new_undef h, Some av) \<and>
      strada_array_shift h (Some av) = (strada_new_undef h, Some av)) \<and>
   (\<not> strada_hash_exists (Some hv) (Some key) \<longrightarrow>
      strada_hash_get h (Some hv) (Some key) = strada_new_undef h) \<and>
   strada_array_get h None idx = strada_new_undef h \<and>
   strada_array_pop h None = (strada_new_undef h, None) \<and>
   strada_array_shift h None = (strada_new_undef h, None) \<and>
   strada_hash_get h None (Some key) = strada_new_undef h \<and>
   strada_hash_get h (Some hv) None = strada_new_undef h"
proof -
  have get: "(if idx < 0 then int (length (elements av)) + idx else idx) < 0 \<or>
    int (length (elements av)) \<le> (if idx < 0 then int (length (elements av)) + idx else idx)
      \<longrightarrow> strada_array_get h (Some av) idx = strada_new_undef h"
    by (auto simp: strada_array_get_def Let_def)
  have pop: "elements av = [] \<longrightarrow>
      strada_array_pop h (Some av) = (strada_new_undef h, Some av) \<and>
      strada_array_shift h (Some av) = (strada_new_undef h, Some av)"
    by (simp add: strada_array_pop_def strada_array_shift_def)
  have hget: "\<not> strada_hash_exists (Some hv) (Some key) \<longrightarrow>
      strada_hash_get h (Some hv) (Some key) = strada_new_undef h"
    by (simp add: strada_hash_exists_def strada_hash_get_def split: option.splits)
  have nulls: "strada_array_get h None idx = strada_new_undef h"
    "strada_array_pop h None = (strada_new_undef h, None)"
    "strada_array_shift h None = (strada_new_undef h, None)"
    "strada_hash_get h None (Some key) = strada_new_undef h"
    "strada_hash_get h (Some hv) None = strada_new_undef h"
    by (simp_all add: strada_array_get_def strada_array_pop_def strada_array_shift_def
        strada_hash_get_def)
  have c0: "cell h (length h) = None" by (simp add: cell_def)
  have c1: "cell (snd (strada_new_undef h)) (length h) =
     Some \<lparr>data = STRADA_UNDEF, refcount = 1, blessed_package = None\<rparr>"
    by (simp add: new_undef_fresh cell_def)
  have c2: "\<forall>a<length h. cell (snd (strada_new_undef h)) a = cell h a"
    by (simp add: new_undef_fresh cell_append_old)
  show ?thesis
    using new_undef_fresh[of h] c0 c1 c2 get pop hget nulls by (intro conjI)
qed

theorem absent_reads_return_fresh_undef_witness:
  "strada_array_get [] (Some \<lparr>elements = [None, None], capacity = 8, a_refcount = 1\<rparr>) 5 =
     (Some 0, [Some \<lparr>data = STRADA_UNDEF, refcount = 1, blessed_package = None\<rparr>]) \<and>
   strada_array_get [] (Some \<lparr>elements = [None, None], capacity = 8, a_refcount = 1\<rparr>) (- 3) =
     (Some 0, [Some \<lparr>data = STRADA_UNDEF, refcount = 1, blessed_package = None\<rparr>]) \<and>
   strada_array_pop [] (Some \<lparr>elements = [], capacity = 8, a_refcount = 1\<rparr>) =
     ((Some 0, [Some \<lparr>data = STRADA_UNDEF, refcount = 1, blessed_package = None\<rparr>]),
      Some \<lparr>elements = [], capacity = 8, a_refcount = 1\<rparr>) \<and>
   strada_array_shift [] (Some \<lparr>elements = [], capacity = 8, a_refcount = 1\<rparr>) =
     ((Some 0, [Some \<lparr>data = STRADA_UNDEF, refcount = 1, blessed_package = None\<rparr>]),
      Some \<lparr>elements = [], capacity = 8, a_refcount = 1\<rparr>) \<and>
   \<not> strada_hash_exists (Some (strada_hash_new 16)) (Some ''k'') \<and>
   strada_hash_get [] (Some (strada_hash_new 16)) (Some ''k'') =
     (Some 0, [Some \<lparr>data = STRADA_UNDEF, refcount = 1, blessed_package = None\<rparr>])"
proof -
  let ?two = "\<lparr>elements = [None, None], capacity = 8, a_refcount = 1\<rparr>"
  let ?none = "\<lparr>elements = [], capacity = 8, a_refcount = 1\<rparr>"
  have ne: "\<not> strada_hash_exists (Some (strada_hash_new 16)) (Some ''k'')"
    by (simp add: strada_hash_exists_def strada_hash_new_def bucket_of_def)
  have "strada_array_get [] (Some ?two) 5 = strada_new_undef []"
    using absent_reads_return_fresh_undef[of "[]" 5 ?two] by simp
  moreover have "strada_array_get [] (Some ?two) (- 3) = strada_new_undef []"
    using absent_reads_return_fresh_undef[of "[]" "- 3" ?two] by simp
  moreover have "strada_array_pop [] (Some ?none) = (strada_new_undef [], Some ?none)"
    "strada_array_shift [] (Some ?none) = (strada_new_undef [], Some ?none)"
    using absent_reads_return_fresh_undef[of "[]" 0 ?none] by simp_all
  moreover have "strada_hash_get [] (Some (strada_hash_new 16)) (Some ''k'') = strada_new_undef []"
    using absent_reads_return_fresh_undef[of "[]" 0 ?none "strada_hash_new 16" "''k''"] ne
    by blast
  moreover have "strada_new_undef [] =
      (Some 0, [Some \<lparr>data = STRADA_UNDEF, refcount = 1, blessed_package = None\<rparr>])"
    using absent_reads_return_fresh_undef[of "[]" 0 ?none] by simp
  ultimately show ?thesis using ne by simp
qed

section \<open>Method lookup behind a full visited array\<close>

lemma pkg_name_inj: "pkg_name i = pkg_name j \<longleftrightarrow> i = j"
proof
  assume "pkg_name i = pkg_name j"
  then have "length (pkg_name i) = length (pkg_name j)" by simp
  then show "i = j" by (simp add: pkg_name_def)
qed simp

lemma pkg_name_not_empty: "pkg_name i \<noteq> []"
  by (simp add: pkg_name_def)

lemma find_chain_package:
  "a \<le> i \<Longrightarrow> i < b \<Longrightarrow>
   oop_find_package (map chain_package [a..<b]) (pkg_name i) = Some (chain_package i)"
proof (induction "i - a" arbitrary: a)
  case 0
  then have "a = i" by simp
  with 0 show ?case by (simp add: upt_conv_Cons chain_package_def)
next
  case (Suc d)
  then have a: "a < i" "a < b" "Suc a \<le> i" "d = i - Suc a" by simp_all
  have "p_name (chain_package a) \<noteq> pkg_name i"
    using a by (simp add: chain_package_def pkg_name_inj)
  then show ?case
    using Suc.hyps(1)[OF a(4) a(3) Suc.prems(2)] a by (simp add: upt_conv_Cons)
qed

lemma lookup_cycle_no_return:
  assumes "64 \<le> length visited" "pkg_name 64 \<notin> set visited"
  shows "oop_lookup_method_in n (map chain_package [0..<65]) (pkg_name 64) m visited = None"
proof (induction n)
  case 0
  show ?case by simp
next
  case (Suc n)
  have f: "oop_find_package (map chain_package [0..<65]) (pkg_name 64) = Some (chain_package 64)"
    by (rule find_chain_package) simp_all
  have p: "parents (chain_package 64) = [pkg_name 64]" "methods (chain_package 64) = []"
    by (simp_all add: chain_package_def)
  show ?case
    using assms Suc by (simp add: pkg_name_not_empty f p)
qed

lemma lookup_chain_no_return:
  assumes "i \<le> 64"
  shows "oop_lookup_method_in n (map chain_package [0..<65]) (pkg_name i) m (map pkg_name [0..<i]) = None"
  using assms
proof (induction "64 - i" arbitrary: i n)
  case 0
  then have i: "i = 64" by simp
  show ?case unfolding i
    by (rule lookup_cycle_no_return) (auto simp: pkg_name_inj)
next
  case (Suc d)
  then have i: "i < 64" "d = 64 - Suc i" "Suc i \<le> 64" by simp_all
  show ?case
  proof (cases n)
    case 0
    then show ?thesis by simp
  next
    case (Suc k)
    have f: "oop_find_package (map chain_package [0..<65]) (pkg_name i) = Some (chain_package i)"
      using i by (intro find_chain_package) simp_all
    have p: "parents (chain_package i) = [pkg_name (Suc i)]" "methods (chain_package i) = []"
      using i by (simp_all add: chain_package_def)
    have nv: "pkg_name i \<notin> set (map pkg_name [0..<i])" by (auto simp: pkg_name_inj)
    have v: "map pkg_name [0..<i] @ [pkg_name i] = map pkg_name [0..<Suc i]" by simp
    have IH: "oop_lookup_method_in k (map chain_package [0..<65]) (pkg_name (Suc i)) m
                (map pkg_name [0..<Suc i]) = None"
      by (rule Suc.hyps(1)[OF i(2) i(3)])
    show ?thesis
      unfolding Suc using nv i(1) IH
      by (simp add: pkg_name_not_empty f p v del: upt_Suc)
  qed
qed

lemma package_index_last:
  "\<forall>p\<in>set ps. p_name p \<noteq> name \<Longrightarrow>
   package_index (ps @ [q]) name = (if p_name q = name then Some (length ps) else None)"
  by (induction ps) auto

lemma copy_pkg_name: "i \<le> 64 \<Longrightarrow> copy_name (pkg_name i) = pkg_name i"
  by (simp add: copy_name_def pkg_name_def OOP_MAX_NAME_LEN_def)

lemma chain_names: "\<forall>p\<in>set (map chain_package [0..<k]). p_name p \<noteq> pkg_name j" if "k \<le> j"
  using that by (auto simp: chain_package_def pkg_name_inj)

lemma inherit_first:
  "strada_inherit \<lparr>oop_packages = [], oop_initialized = False\<rparr> (Some (pkg_name 0)) (Some (pkg_name 1))
   = Inr \<lparr>oop_packages = map chain_package [0..<1] @ [fresh_package 1], oop_initialized = True\<rparr>"
proof -
  have n: "pkg_name 0 \<noteq> pkg_name 1" by (simp add: pkg_name_inj)
  have c: "copy_name (pkg_name 0) = pkg_name 0" "copy_name (pkg_name 1) = pkg_name 1"
    by (simp_all add: copy_pkg_name)
  have l: "OOP_MAX_PACKAGES = 256" "OOP_MAX_PARENTS = 16"
    by (simp_all add: OOP_MAX_PACKAGES_def OOP_MAX_PARENTS_def)
  show ?thesis
    using n by (simp add: strada_inherit_def strada_oop_init_def oop_get_or_create_package_def
        copy_pkg_name l chain_package_def fresh_package_def)
qed

lemma inherit_step:
  assumes "1 \<le> k" "k < 64"
  shows "strada_inherit \<lparr>oop_packages = map chain_package [0..<k] @ [fresh_package k],
                          oop_initialized = True\<rparr> (Some (pkg_name k)) (Some (pkg_name (Suc k)))
   = Inr \<lparr>oop_packages = map chain_package [0..<Suc k] @ [fresh_package (Suc k)],
           oop_initialized = True\<rparr>"
proof -
  let ?ps = "map chain_package [0..<k]"
  have i1: "package_index (?ps @ [fresh_package k]) (pkg_name k) = Some k"
    using package_index_last[OF chain_names[of k k], of "fresh_package k"]
    by (simp add: fresh_package_def)
  have upd: "(?ps @ [fresh_package k])[k := chain_package k] = map chain_package [0..<Suc k]"
    by (simp add: list_update_append)
  have i2: "package_index (map chain_package [0..<Suc k]) (pkg_name (Suc k)) = None"
    using package_index_last[OF chain_names[of k "Suc k"], of "chain_package k"]
    by (simp add: chain_package_def pkg_name_inj)
  have c: "copy_name (pkg_name (Suc k)) = pkg_name (Suc k)"
    using assms by (simp add: copy_pkg_name)
  have l: "OOP_MAX_PACKAGES = 256" "OOP_MAX_PARENTS = 16"
    by (simp_all add: OOP_MAX_PACKAGES_def OOP_MAX_PARENTS_def)
  have nth: "(?ps @ [fresh_package k]) ! k = fresh_package k"
    by (simp add: nth_append)
  have fp: "parents (fresh_package k) = []" by (simp add: fresh_package_def)
  have cp: "fresh_package k\<lparr>parents := [pkg_name (Suc k)]\<rparr> = chain_package k"
    using assms by (simp add: fresh_package_def chain_package_def)
  show ?thesis
    using assms
    by (simp add: strada_inherit_def strada_oop_init_def oop_get_or_create_package_def
        i1 nth fp c l cp upd i2 fresh_package_def[of "Suc k"] del: upt_Suc)
qed

lemma inherit_last:
  "strada_inherit \<lparr>oop_packages = map chain_package [0..<64] @ [fresh_package 64],
                    oop_initialized = True\<rparr> (Some (pkg_name 64)) (Some (pkg_name 64))
   = Inr cyclic_registry"
proof -
  let ?ps = "map chain_package [0..<64]"
  have i1: "package_index (?ps @ [fresh_package 64]) (pkg_name 64) = Some 64"
    using package_index_last[OF chain_names[of 64 64], of "fresh_package 64"]
    by (simp add: fresh_package_def)
  have upd: "(?ps @ [fresh_package 64])[64 := chain_package 64] = map chain_package [0..<65]"
  proof -
    have "(?ps @ [fresh_package 64])[length ?ps := chain_package 64] = ?ps @ [chain_package 64]"
      by (simp only: list_update_length)
    moreover have "[0..<65] = [0..<64] @ [64::nat]"
      using upt_Suc_append[of 0 64] by simp
    ultimately show ?thesis by simp
  qed
  have i2: "package_index (map chain_package [0..<65]) (pkg_name 64) = Some 64"
  proof -
    have "[0..<65] = [0..<64] @ [64::nat]"
      using upt_Suc_append[of 0 64] by simp
    then have "map chain_package [0..<65] = ?ps @ [chain_package 64]" by simp
    then show ?thesis
      using package_index_last[OF chain_names[of 64 64], of "chain_package 64"]
      by (simp add: chain_package_def)
  qed
  have c: "copy_name (pkg_name 64) = pkg_name 64" by (simp add: copy_pkg_name)
  have l: "OOP_MAX_PACKAGES = 256" "OOP_MAX_PARENTS = 16"
    by (simp_all add: OOP_MAX_PACKAGES_def OOP_MAX_PARENTS_def)
  have nth: "(?ps @ [fresh_package 64]) ! 64 = fresh_package 64"
    using nth_append_length[of ?ps "fresh_package 64" "[]"] by simp
  have fp: "parents (fresh_package 64) = []" by (simp add: fresh_package_def)
  have cp: "fresh_package 64\<lparr>parents := [pkg_name 64]\<rparr> = chain_package 64"
    by (simp add: fresh_package_def chain_package_def)
  show ?thesis
    by (simp add: strada_inherit_def strada_oop_init_def oop_get_or_create_package_def
        i1 nth fp c l cp upd i2 cyclic_registry_def del: upt_Suc)
qed

lemma inherit_all_from:
  assumes "1 \<le> k" "k \<le> 64"
  shows "inherit_all \<lparr>oop_packages = map chain_package [0..<k] @ [fresh_package k],
                       oop_initialized = True\<rparr>
           (map (\<lambda>i. (pkg_name i, pkg_name (min (Suc i) 64))) [k..<65]) = Inr cyclic_registry"
  using assms
proof (induction "64 - k" arbitrary: k)
  case 0
  then have k: "k = 64" by simp
  have "[64..<65] = [64::nat]" by (simp add: upt_conv_Cons)
  then show ?case unfolding k by (simp add: inherit_last)
next
  case (Suc d)
  then have k: "k < 64" "d = 64 - Suc k" "1 \<le> Suc k" "Suc k \<le> 64" by simp_all
  have u: "[k..<65] = k # [Suc k..<65]" using k by (simp add: upt_conv_Cons)
  have m: "min k 63 = k" using k by simp
  show ?case
    unfolding u using Suc.hyps(1)[OF k(2) k(3) k(4)] inherit_step[OF Suc.prems(1) k(1)]
    by (simp add: m del: upt_Suc)
qed

lemma cyclic_registry_reachable:
  "inherit_all \<lparr>oop_packages = [], oop_initialized = False\<rparr> cyclic_calls = Inr cyclic_registry"
proof -
  have u: "[0..<65] = 0 # [1..<65]" by (simp add: upt_conv_Cons)
  have "inherit_all \<lparr>oop_packages = map chain_package [0..<1] @ [fresh_package 1],
                       oop_initialized = True\<rparr>
           (map (\<lambda>i. (pkg_name i, pkg_name (min (Suc i) 64))) [1..<65]) = Inr cyclic_registry"
    by (rule inherit_all_from) simp_all
  then show ?thesis
    unfolding cyclic_calls_def u using inherit_first by (simp del: upt_Suc)
qed

text \<open>
  C5 fails on the code. The 65 calls \<open>cyclic_calls\<close> of \<^verbatim>\<open>strada_inherit\<close> on the empty
  registry succeed and build \<open>cyclic_registry\<close>; there, the lookup of any method from
  the first package does not return, whatever the bound on the depth of the recursion:
  the 64 packages of the chain fill \<^verbatim>\<open>visited\<close>, so the package that inherits from
  itself is never recorded and is entered again and again.
\<close>

theorem lookup_behind_64_packages_no_return:
  "inherit_all \<lparr>oop_packages = [], oop_initialized = False\<rparr> cyclic_calls = Inr cyclic_registry \<and>
   (\<forall>fuel. oop_lookup_method fuel cyclic_registry (Some (pkg_name 0)) (Some m) = None)"
proof -
  have "oop_lookup_method fuel cyclic_registry (Some (pkg_name 0)) (Some m) = None" for fuel
    using lookup_chain_no_return[of 0 fuel m]
    by (simp add: oop_lookup_method_def cyclic_registry_def)
  then show ?thesis using cyclic_registry_reachable by simp
qed

section \<open>SUPER dispatch\<close>

lemma lookup_parents_fuel_step:
  assumes H: "\<And>p v x. oop_lookup_method_in n ps p m v = Some x \<Longrightarrow>
                      oop_lookup_method_in n' ps p m v = Some x"
  shows "oop_lookup_parents n ps qs m v = Some x \<Longrightarrow> oop_lookup_parents n' ps qs m v = Some x"
proof (induction qs arbitrary: v)
  case Nil
  then show ?case by simp
next
  case (Cons q qs)
  from Cons.prems obtain f v1 where q: "oop_lookup_method_in n ps q m v = Some (f, v1)"
    by (auto split: option.splits)
  note q' = H[OF q]
  show ?case
  proof (cases f)
    case None
    with Cons.prems q have "oop_lookup_parents n ps qs m v1 = Some x" by simp
    then have "oop_lookup_parents n' ps qs m v1 = Some x" by (rule Cons.IH)
    with None q' show ?thesis by simp
  next
    case (Some func)
    with Cons.prems q have "x = (Some func, v1)" by simp
    with Some q' show ?thesis by simp
  qed
qed

lemma lookup_in_fuel_Suc:
  "oop_lookup_method_in n ps p m v = Some x \<Longrightarrow> oop_lookup_method_in (Suc n) ps p m v = Some x"
proof (induction n arbitrary: p v x)
  case 0
  then show ?case by simp
next
  case (Suc n)
  have P: "oop_lookup_parents n ps qs m w = Some y \<Longrightarrow> oop_lookup_parents (Suc n) ps qs m w = Some y"
    for qs w y
    by (rule lookup_parents_fuel_step[of n ps m "Suc n"]) (rule Suc.IH)
  show ?case
  proof (cases "p = [] \<or> p \<in> set v")
    case True
    with Suc.prems have "x = (None, v)" by (auto split: if_splits)
    with True show ?thesis by auto
  next
    case False
    let ?v1 = "if length v < 64 then v @ [p] else v"
    show ?thesis
    proof (cases "oop_find_package ps p")
      case None
      with False Suc.prems show ?thesis by (simp add: Let_def)
    next
      case (Some pkg)
      show ?thesis
      proof (cases "find_method (methods pkg) m")
        case None
        with False Some Suc.prems
        have "oop_lookup_parents n ps (parents pkg) m ?v1 = Some x"
          by (simp add: Let_def)
        then have "oop_lookup_parents (Suc n) ps (parents pkg) m ?v1 = Some x" by (rule P)
        with False Some None show ?thesis
          by (simp add: Let_def del: oop_lookup_parents.simps)
      next
        case (Some func)
        with False \<open>oop_find_package ps p = Some pkg\<close> Suc.prems show ?thesis
          by (simp add: Let_def)
      qed
    qed
  qed
qed

lemma lookup_in_fuel_mono:
  assumes "oop_lookup_method_in n ps p m v = Some x" "n \<le> n'"
  shows "oop_lookup_method_in n' ps p m v = Some x"
  using assms(2,1)
proof (induction rule: dec_induct)
  case base
  then show ?case .
next
  case (step k)
  then show ?case by (intro lookup_in_fuel_Suc) blast
qed

lemma lookup_method_fuel_mono:
  "oop_lookup_method n r p m = Some x \<Longrightarrow> n \<le> n' \<Longrightarrow> oop_lookup_method n' r p m = Some x"
  unfolding oop_lookup_method_def
  by (auto split: option.splits if_splits dest: lookup_in_fuel_mono)

lemma super_search_fuel_mono:
  "super_search n r qs m = Some x \<Longrightarrow> n \<le> n' \<Longrightarrow> super_search n' r qs m = Some x"
proof (induction qs)
  case Nil
  then show ?case by simp
next
  case (Cons q qs)
  from Cons.prems obtain y where y: "oop_lookup_method n r (Some q) (Some m) = Some y"
    by (auto split: option.splits)
  then have y': "oop_lookup_method n' r (Some q) (Some m) = Some y"
    using Cons.prems(2) by (rule lookup_method_fuel_mono)
  show ?case
  proof (cases y)
    case None
    with Cons.prems y have "super_search n r qs m = Some x" by simp
    then have "super_search n' r qs m = Some x" using Cons.prems(2) by (rule Cons.IH)
    with None y' show ?thesis by simp
  next
    case (Some func)
    with Cons.prems y have "x = Some func" by simp
    with Some y' show ?thesis by simp
  qed
qed

lemma super_call_fuel_mono:
  "strada_super_call n r ob from m = Some x \<Longrightarrow> n \<le> n' \<Longrightarrow>
   strada_super_call n' r ob from m = Some x"
  unfolding strada_super_call_def
  by (auto simp: Let_def split: option.splits if_splits dest: super_search_fuel_mono)


lemma super_search_first_match:
  assumes "\<forall>q\<in>set before. oop_lookup_method fuel r (Some q) (Some m) = Some None"
    "oop_lookup_method fuel r (Some p) (Some m) = Some (Some func)"
  shows "super_search fuel r (before @ p # after) m = Some (Some func)"
  using assms by (induction before) simp_all

lemma super_search_no_match:
  assumes "\<forall>q\<in>set ps. oop_lookup_method fuel r (Some q) (Some m) = Some None"
  shows "super_search fuel r ps m = Some None"
  using assms by (induction ps) simp_all

lemma diamond_super_from_B:
  "strada_super_call 3 diamond (Some (blessed_ref ''D'')) (Some ''B'') (Some ''hello'') = Some (Inr 1)"
  by (simp add: strada_super_call_def diamond_def blessed_ref_def strada_oop_init_def
      oop_lookup_method_def numeral_3_eq_3)

text \<open>
  C6 as stated fails on the code: in the chain \<open>A\<close>, \<open>B\<close> (parent \<open>A\<close>), \<open>C\<close> (parent \<open>B\<close>),
  where only \<open>A\<close> and \<open>C\<close> define \<open>hello\<close>, \<^verbatim>\<open>SUPER::hello\<close> from \<open>C\<close> calls the method of
  \<open>A\<close>, which is not a direct parent of \<open>C\<close>; a search of the direct parents only finds
  nothing.
\<close>

theorem super_call_reaches_grandparent:
  "strada_super_call 3 chain3 (Some (blessed_ref ''C'')) (Some ''C'') (Some ''hello'') = Some (Inr 1) \<and>
   spec_super_dispatch chain3 ''C'' ''hello'' = None"
  by (simp add: strada_super_call_def chain3_def blessed_ref_def strada_oop_init_def
      oop_lookup_method_def numeral_3_eq_3 spec_super_dispatch_def)

text \<open>
  C6 as amended. \<^verbatim>\<open>SUPER::\<close> dispatch does not depend on the class of the receiver (which
  only has to be blessed): it takes the direct parents of \<open>from_package\<close> in order and
  calls what the depth-first method lookup from the first of them that finds the name
  returns, so the ancestors of a parent are searched before the next parent; when the
  lookup finds nothing from any parent the call is fatal. In the diamond, \<^verbatim>\<open>SUPER::hello\<close>
  from \<open>B\<close> on a receiver of class \<open>D\<close> calls the method of \<open>A\<close> (1), not that of \<open>C\<close> (3).
\<close>

theorem super_call_first_parent_lookup:
  "(oop_initialized r \<and> oop_find_package (oop_packages r) from_package = Some pkg \<and>
    blessed_package ob \<noteq> None \<and> parents pkg = before @ p # after \<and>
    (\<forall>q\<in>set before. oop_lookup_method fuel r (Some q) (Some m) = Some None) \<and>
    oop_lookup_method fuel r (Some p) (Some m) = Some (Some func)
    \<longrightarrow> (\<forall>k\<ge>fuel. strada_super_call k r (Some ob) (Some from_package) (Some m) = Some (Inr func))) \<and>
   (oop_initialized r \<and> oop_find_package (oop_packages r) from_package = Some pkg \<and>
    blessed_package ob \<noteq> None \<and>
    (\<forall>q\<in>set (parents pkg). oop_lookup_method fuel r (Some q) (Some m) = Some None)
    \<longrightarrow> (\<forall>k\<ge>fuel. strada_super_call k r (Some ob) (Some from_package) (Some m) =
                    Some (Inl SUPER_cannot_locate))) \<and>
   (\<forall>k\<ge>3. strada_super_call k diamond (Some (blessed_ref ''D'')) (Some ''B'') (Some ''hello'') =
             Some (Inr 1)) \<and>
   oop_lookup_method 1 diamond (Some ''A'') (Some ''hello'') = Some (Some 1) \<and>
   oop_lookup_method 1 diamond (Some ''C'') (Some ''hello'') = Some (Some 3)"
proof (intro conjI impI allI)
  fix k
  assume a: "oop_initialized r \<and> oop_find_package (oop_packages r) from_package = Some pkg \<and>
    blessed_package ob \<noteq> None \<and> parents pkg = before @ p # after \<and>
    (\<forall>q\<in>set before. oop_lookup_method fuel r (Some q) (Some m) = Some None) \<and>
    oop_lookup_method fuel r (Some p) (Some m) = Some (Some func)"
    and k: "fuel \<le> k"
  then have "super_search fuel r (parents pkg) m = Some (Some func)"
    by (simp add: super_search_first_match)
  with a have "strada_super_call fuel r (Some ob) (Some from_package) (Some m) = Some (Inr func)"
    by (auto simp: strada_super_call_def strada_oop_init_def)
  then show "strada_super_call k r (Some ob) (Some from_package) (Some m) = Some (Inr func)"
    using k by (rule super_call_fuel_mono)
next
  fix k
  assume a: "oop_initialized r \<and> oop_find_package (oop_packages r) from_package = Some pkg \<and>
    blessed_package ob \<noteq> None \<and>
    (\<forall>q\<in>set (parents pkg). oop_lookup_method fuel r (Some q) (Some m) = Some None)"
    and k: "fuel \<le> k"
  then have "super_search fuel r (parents pkg) m = Some None"
    by (simp add: super_search_no_match)
  with a have "strada_super_call fuel r (Some ob) (Some from_package) (Some m) =
      Some (Inl SUPER_cannot_locate)"
    by (auto simp: strada_super_call_def strada_oop_init_def)
  then show "strada_super_call k r (Some ob) (Some from_package) (Some m) =
      Some (Inl SUPER_cannot_locate)"
    using k by (rule super_call_fuel_mono)
next
  fix k :: nat
  assume "3 \<le> k"
  with diamond_super_from_B
  show "strada_super_call k diamond (Some (blessed_ref ''D'')) (Some ''B'') (Some ''hello'') =
      Some (Inr 1)"
    by (rule super_call_fuel_mono)
next
  show "oop_lookup_method 1 diamond (Some ''A'') (Some ''hello'') = Some (Some 1)"
    by (simp add: diamond_def oop_lookup_method_def)
  show "oop_lookup_method 1 diamond (Some ''C'') (Some ''hello'') = Some (Some 3)"
    by (simp add: diamond_def oop_lookup_method_def)
qed

theorem super_call_first_parent_lookup_witness:
  "oop_initialized diamond \<and>
   oop_find_package (oop_packages diamond) ''D'' =
     Some \<lparr>p_name = ''D'', parents = [''B'', ''C''], methods = []\<rparr> \<and>
   oop_lookup_method 2 diamond (Some ''B'') (Some ''hello'') = Some (Some 1) \<and>
   strada_super_call 2 diamond (Some (blessed_ref ''D'')) (Some ''D'') (Some ''hello'') = Some (Inr 1) \<and>
   oop_lookup_method 2 diamond (Some ''B'') (Some ''nothing'') = Some None \<and>
   oop_lookup_method 2 diamond (Some ''C'') (Some ''nothing'') = Some None \<and>
   strada_super_call 2 diamond (Some (blessed_ref ''D'')) (Some ''D'') (Some ''nothing'') =
     Some (Inl SUPER_cannot_locate)"
proof -
  let ?D = "\<lparr>p_name = ''D'', parents = [''B'', ''C''], methods = []\<rparr>"
  have i: "oop_initialized diamond" by (simp add: diamond_def)
  have f: "oop_find_package (oop_packages diamond) ''D'' = Some ?D" by (simp add: diamond_def)
  have b: "blessed_package (blessed_ref ''D'') \<noteq> None" by (simp add: blessed_ref_def)
  have l: "oop_lookup_method 2 diamond (Some ''B'') (Some ''hello'') = Some (Some 1)"
    by (simp add: diamond_def oop_lookup_method_def numeral_2_eq_2)
  have n: "oop_lookup_method 2 diamond (Some ''B'') (Some ''nothing'') = Some None"
    "oop_lookup_method 2 diamond (Some ''C'') (Some ''nothing'') = Some None"
    by (simp_all add: diamond_def oop_lookup_method_def numeral_2_eq_2)
  have p: "parents ?D = [] @ ''B'' # [''C'']" by simp
  have "strada_super_call 2 diamond (Some (blessed_ref ''D'')) (Some ''D'') (Some ''hello'') = Some (Inr 1)"
    using super_call_first_parent_lookup[of diamond "''D''" ?D "blessed_ref ''D''" "[]" "''B''" "[''C'']"
        2 "''hello''" 1] i f b l
    by simp
  moreover have "strada_super_call 2 diamond (Some (blessed_ref ''D'')) (Some ''D'') (Some ''nothing'') =
     Some (Inl SUPER_cannot_locate)"
    using super_call_first_parent_lookup[of diamond "''D''" ?D "blessed_ref ''D''" "[]" "''B''" "[''C'']"
        2 "''nothing''" 1] i f b n
    by simp
  ultimately show ?thesis using i f l n by simp
qed

section \<open>Throwing and catching\<close>

lemma try_stack_inv_initial: "try_stack_inv initial_exception_state"
  by (simp add: try_stack_inv_def initial_exception_state_def)

lemma try_stack_inv_push: "try_stack_inv s \<Longrightarrow> try_stack_inv (snd (STRADA_TRY_PUSH s))"
  by (auto simp: try_stack_inv_def STRADA_TRY_PUSH_def list_all_iff take_Suc_conv_app_nth
      dest: in_set_takeD)

lemma try_stack_inv_pop: "try_stack_inv s \<Longrightarrow> try_stack_inv (snd (STRADA_TRY_POP s))"
proof -
  assume a: "try_stack_inv s"
  show ?thesis
  proof (cases "strada_try_depth s")
    case 0
    with a show ?thesis by (simp add: STRADA_TRY_POP_def)
  next
    case (Suc d)
    have "take d ((strada_try_active s)[d := False]) = take d (strada_try_active s)"
      by simp
    moreover have "set (take d (strada_try_active s)) \<subseteq> set (take (Suc d) (strada_try_active s))"
      by (rule set_take_subset_set_take) simp
    ultimately show ?thesis
      using a Suc by (auto simp: try_stack_inv_def STRADA_TRY_POP_def list_all_iff)
  qed
qed

lemma active_frames_inv:
  assumes "try_stack_inv s"
  shows "active_frames s = rev [0..<strada_try_depth s]"
proof -
  have "strada_try_active s ! i" if "i < strada_try_depth s" for i
  proof -
    from assms that have "i < length (take (strada_try_depth s) (strada_try_active s))"
      by (simp add: try_stack_inv_def)
    then have "take (strada_try_depth s) (strada_try_active s) ! i
                 \<in> set (take (strada_try_depth s) (strada_try_active s))"
      by (rule nth_mem)
    with assms that show ?thesis by (auto simp: try_stack_inv_def list_all_iff)
  qed
  then show ?thesis by (simp add: active_frames_def filter_id_conv)
qed

lemma in_try_block_inv:
  assumes "try_stack_inv s"
  shows "strada_in_try_block s \<longleftrightarrow> active_frames s \<noteq> []"
    and "active_frames s \<noteq> [] \<Longrightarrow> hd (active_frames s) = strada_try_depth s - 1"
proof -
  note af = active_frames_inv[OF assms]
  show "active_frames s \<noteq> [] \<Longrightarrow> hd (active_frames s) = strada_try_depth s - 1"
    by (cases "strada_try_depth s") (simp_all add: af)
  show "strada_in_try_block s \<longleftrightarrow> active_frames s \<noteq> []"
  proof (cases "strada_try_depth s")
    case 0
    then show ?thesis by (simp add: af strada_in_try_block_def)
  next
    case (Suc d)
    then have "d \<in> set (active_frames s)" by (simp add: af)
    then have "strada_try_active s ! d" by (simp add: active_frames_def)
    with Suc show ?thesis by (simp add: af strada_in_try_block_def)
  qed
qed


lemma show_int_42: "show_int 42 = ''42''"
proof -
  have "show_nat 4 = ''4''" by (subst show_nat.simps) simp
  then have "show_nat 42 = ''42''" by (subst show_nat.simps) simp
  then show ?thesis by (simp add: show_int_def)
qed

text \<open>
  C2 as stated fails on the code: an Int 42 thrown inside a try region reaches the
  frame, but what \<^verbatim>\<open>strada_get_exception\<close> then returns is a new value at another
  address, the string \<open>''42''\<close>, not the Int that was thrown.
\<close>

theorem get_exception_returns_string_of_thrown_int:
  "strada_throw_value example_platform int_42_heap (snd (STRADA_TRY_PUSH initial_exception_state)) (Some 0) =
     Some (Longjmp 0,
           (snd (STRADA_TRY_PUSH initial_exception_state))\<lparr>strada_exception_msg := Some ''42''\<rparr>) \<and>
   strada_get_exception int_42_heap
       ((snd (STRADA_TRY_PUSH initial_exception_state))\<lparr>strada_exception_msg := Some ''42''\<rparr>) =
     (Some 1, int_42_heap @ [Some \<lparr>data = STRADA_STR (Some ''42''), refcount = 1,
                                     blessed_package = None\<rparr>]) \<and>
   cell int_42_heap 0 = Some \<lparr>data = STRADA_INT 42, refcount = 1, blessed_package = None\<rparr>"
  by (simp add: strada_throw_value_def strada_to_str_def int_42_heap_def cell_def show_int_42
      STRADA_TRY_PUSH_def initial_exception_state_def STRADA_MAX_TRY_DEPTH_def
      strada_in_try_block_def strada_get_exception_def strada_new_str_def malloc_value_def
      cstr_def)

text \<open>
  C2 as amended. In a state of the try stack reached by pushes and pops, a throw of an
  allocated value while a frame is active stores the string conversion of the value as
  the current exception and jumps to the nearest active frame, the top one, leaving
  the stack as it is; \<^verbatim>\<open>strada_get_exception\<close> then returns a newly allocated string
  value, with reference count 1, whose text is that conversion. A throw while no frame
  is active stores the text and exits the process.
\<close>

theorem throw_value_jumps_or_exits:
  assumes "try_stack_inv s" "cell h a = Some v"
  shows "\<exists>msg. strada_to_str P h (Some a) = Some msg \<and>
           strada_throw_value P h s (Some a) =
             Some (if active_frames s \<noteq> [] then Longjmp (hd (active_frames s)) else Exit,
                   s\<lparr>strada_exception_msg := Some msg\<rparr>) \<and>
           (active_frames s \<noteq> [] \<longrightarrow> hd (active_frames s) = strada_try_depth s - 1) \<and>
           strada_get_exception h' (s\<lparr>strada_exception_msg := Some msg\<rparr>) =
             (Some (length h'),
              h' @ [Some \<lparr>data = STRADA_STR (Some (cstr msg)), refcount = 1,
                          blessed_package = None\<rparr>])"
proof -
  obtain msg where m: "strada_to_str P h (Some a) = Some msg"
    using assms(2) by (simp add: strada_to_str_def)
  let ?s1 = "s\<lparr>strada_exception_msg := Some msg\<rparr>"
  have inv1: "try_stack_inv ?s1" using assms(1) by (simp add: try_stack_inv_def)
  have af: "active_frames ?s1 = active_frames s" by (simp add: active_frames_def)
  have blk: "strada_in_try_block ?s1 \<longleftrightarrow> active_frames s \<noteq> []"
    using in_try_block_inv(1)[OF inv1] by (simp add: af)
  have top: "active_frames s \<noteq> [] \<longrightarrow> hd (active_frames s) = strada_try_depth s - 1"
    using in_try_block_inv(2)[OF assms(1)] by simp
  have thr: "strada_throw_value P h s (Some a) =
      Some (if active_frames s \<noteq> [] then Longjmp (hd (active_frames s)) else Exit, ?s1)"
    using m blk top by (simp add: strada_throw_value_def Let_def)
  have get: "strada_get_exception h' ?s1 =
      (Some (length h'),
       h' @ [Some \<lparr>data = STRADA_STR (Some (cstr msg)), refcount = 1, blessed_package = None\<rparr>])"
    by (simp add: strada_get_exception_def strada_new_str_def malloc_value_def)
  from m thr top get show ?thesis by blast
qed

theorem throw_value_jumps_or_exits_witness:
  "try_stack_inv (snd (STRADA_TRY_PUSH initial_exception_state)) \<and>
   active_frames (snd (STRADA_TRY_PUSH initial_exception_state)) = [0] \<and>
   cell int_42_heap 0 = Some \<lparr>data = STRADA_INT 42, refcount = 1, blessed_package = None\<rparr> \<and>
   (\<exists>msg. strada_throw_value example_platform int_42_heap
             (snd (STRADA_TRY_PUSH initial_exception_state)) (Some 0) =
           Some (Longjmp 0, (snd (STRADA_TRY_PUSH initial_exception_state))
                              \<lparr>strada_exception_msg := Some msg\<rparr>)) \<and>
   try_stack_inv initial_exception_state \<and>
   active_frames initial_exception_state = [] \<and>
   (\<exists>msg. strada_throw_value example_platform int_42_heap initial_exception_state (Some 0) =
           Some (Exit, initial_exception_state\<lparr>strada_exception_msg := Some msg\<rparr>))"
proof -
  let ?s = "snd (STRADA_TRY_PUSH initial_exception_state)"
  have i0: "try_stack_inv initial_exception_state" by (rule try_stack_inv_initial)
  have i1: "try_stack_inv ?s" using i0 by (rule try_stack_inv_push)
  have c: "cell int_42_heap 0 = Some \<lparr>data = STRADA_INT 42, refcount = 1, blessed_package = None\<rparr>"
    by (simp add: int_42_heap_def cell_def)
  have a1: "active_frames ?s = [0]"
    by (simp add: active_frames_def STRADA_TRY_PUSH_def initial_exception_state_def
        STRADA_MAX_TRY_DEPTH_def)
  have a0: "active_frames initial_exception_state = []"
    by (simp add: active_frames_def initial_exception_state_def)
  have A: "\<exists>msg. strada_throw_value example_platform int_42_heap ?s (Some 0) =
           Some (Longjmp 0, ?s\<lparr>strada_exception_msg := Some msg\<rparr>)"
    using throw_value_jumps_or_exits[OF i1 c, of example_platform "[]"] a1 by auto
  have B: "\<exists>msg. strada_throw_value example_platform int_42_heap initial_exception_state (Some 0) =
           Some (Exit, initial_exception_state\<lparr>strada_exception_msg := Some msg\<rparr>)"
    using throw_value_jumps_or_exits[OF i0 c, of example_platform "[]"] a0 by auto
  show ?thesis using i0 i1 c a1 a0 A B by (intro conjI)
qed

section \<open>Truthiness and the conversions\<close>

lemma to_bool_cell:
  "cell h a = Some v \<Longrightarrow> strada_to_bool h (Some a) =
     (case data v of
        STRADA_UNDEF \<Rightarrow> Some False
      | STRADA_INT iv \<Rightarrow> Some (iv \<noteq> 0)
      | STRADA_NUM nv \<Rightarrow> Some (double_nonzero nv)
      | STRADA_STR pv \<Rightarrow>
          Some (case pv of None \<Rightarrow> False | Some bytes \<Rightarrow> cstr bytes \<noteq> [] \<and> cstr bytes \<noteq> ''0'')
      | STRADA_ARRAY av \<Rightarrow> Some (av \<noteq> None \<and> strada_array_length av > 0)
      | STRADA_HASH hv \<Rightarrow> Some (case hv of None \<Rightarrow> False | Some t \<Rightarrow> num_entries t > 0)
      | STRADA_REF rv \<Rightarrow> (if rv \<noteq> None then strada_to_bool h rv else Some False)
      | _ \<Rightarrow> Some True)"
  by (subst strada_to_bool.simps) simp

lemma to_bool_null: "strada_to_bool h None = Some False"
  by (subst strada_to_bool.simps) simp

lemma to_bool_leaf:
  assumes "cell h a = Some v"
  shows "data v = STRADA_UNDEF \<Longrightarrow> strada_to_bool h (Some a) = Some False"
    "data v = STRADA_INT iv \<Longrightarrow> strada_to_bool h (Some a) = Some (iv \<noteq> 0)"
    "data v = STRADA_NUM nv \<Longrightarrow> strada_to_bool h (Some a) = Some (double_nonzero nv)"
    "data v = STRADA_STR (Some bytes) \<Longrightarrow>
       strada_to_bool h (Some a) = Some (\<not> (cstr bytes = [] \<or> cstr bytes = ''0''))"
    "data v = STRADA_ARRAY (Some av) \<Longrightarrow>
       strada_to_bool h (Some a) = Some (elements av \<noteq> [])"
    "data v = STRADA_HASH (Some hv) \<Longrightarrow>
       strada_to_bool h (Some a) = Some (num_entries hv > 0)"
    "data v = STRADA_REF rv \<Longrightarrow> strada_to_bool h (Some a) = strada_to_bool h rv"
  using assms
  by (simp_all add: to_bool_cell strada_array_length_def to_bool_null)


lemma double_zero_bits:
  fixes nv :: "64 word"
  shows "nv AND 0x7FFFFFFFFFFFFFFF = 0 \<longleftrightarrow> nv = 0 \<or> nv = 0x8000000000000000"
proof -
  have m: "(0x7FFFFFFFFFFFFFFF :: 64 word) = mask 63" by (simp add: mask_eq_exp_minus_1)
  have u: "unat (nv AND mask 63) = unat nv mod 2 ^ 63"
    by (simp flip: take_bit_eq_mask add: take_bit_eq_mod unat_mod)
  have lt: "unat nv < 2 ^ 64" using unsigned_less[of nv] by simp
  have "nv AND mask 63 = 0 \<longleftrightarrow> unat nv mod 2 ^ 63 = 0"
    using u by (metis unsigned_eq_0_iff)
  also have "\<dots> \<longleftrightarrow> unat nv = 0 \<or> unat nv = 2 ^ 63"
    using lt by auto
  also have "\<dots> \<longleftrightarrow> nv = 0 \<or> nv = 0x8000000000000000"
  proof -
    have "unat (0x8000000000000000 :: 64 word) = 2 ^ 63" by simp
    then show ?thesis by (metis unsigned_eq_0_iff word_unat_eq_iff)
  qed
  finally show ?thesis by (simp add: m)
qed

text \<open>
  C7 as stated fails on the code: the string of the two bytes NUL and \<open>a\<close>, made by
  \<^verbatim>\<open>strada_new_str_len\<close>, has length 2 and is not \<open>''0''\<close>, and \<^verbatim>\<open>strada_to_bool\<close> returns
  false on it.
\<close>

theorem to_bool_false_on_string_with_leading_nul:
  "strada_new_str_len [] (Some [CHR 0x00, CHR ''a'']) 2 = (Some 0, nul_a_heap) \<and>
   strada_str_len nul_a_heap (Some 0) = Some 2 \<and>
   strada_to_bool nul_a_heap (Some 0) = Some False"
proof -
  have c: "cell nul_a_heap 0 =
      Some \<lparr>data = STRADA_STR (Some [CHR 0x00, CHR ''a'']), refcount = 1, blessed_package = None\<rparr>"
    by (simp add: cell_def nul_a_heap_def)
  have "strada_to_bool nul_a_heap (Some 0) = Some False"
    by (simp add: to_bool_cell[OF c] cstr_def)
  moreover have "strada_str_len nul_a_heap (Some 0) = Some 2"
    by (simp add: strada_str_len_def c)
  moreover have "strada_new_str_len [] (Some [CHR 0x00, CHR ''a'']) 2 = (Some 0, nul_a_heap)"
    by (simp add: strada_new_str_len_def malloc_value_def nul_a_heap_def)
  ultimately show ?thesis by simp
qed

text \<open>
  C7 as amended. For a \<^verbatim>\<open>NULL\<close> pointer and for Undef the helpers return false, 0, 0.0
  and the empty string. For the other kinds \<^verbatim>\<open>strada_to_bool\<close> returns: Int, whether it
  is not 0; Num, whether it is neither \<open>+0.0\<close> nor \<open>-0.0\<close>; a string, false iff its bytes
  before the first NUL byte are none or exactly \<open>''0''\<close>; an array, whether it has an
  element; a hash, whether its entry count is positive; a reference, what it returns
  on the target (and nothing when that call returns nothing); every other kind, true.
\<close>

theorem conversions_follow_truthiness_rules:
  assumes "cell h a = Some v"
  shows "strada_to_bool h None = Some False \<and> strada_to_int P h None = Some 0 \<and>
         strada_to_num P h None = Some double_zero \<and> strada_to_str P h None = Some [] \<and>
         (data v = STRADA_UNDEF \<longrightarrow>
            strada_to_bool h (Some a) = Some False \<and> strada_to_int P h (Some a) = Some 0 \<and>
            strada_to_num P h (Some a) = Some double_zero \<and> strada_to_str P h (Some a) = Some []) \<and>
         (\<forall>iv. data v = STRADA_INT iv \<longrightarrow> strada_to_bool h (Some a) = Some (iv \<noteq> 0)) \<and>
         (\<forall>nv. data v = STRADA_NUM nv \<longrightarrow>
            strada_to_bool h (Some a) = Some (nv \<noteq> 0 \<and> nv \<noteq> 0x8000000000000000)) \<and>
         (\<forall>bytes. data v = STRADA_STR (Some bytes) \<longrightarrow>
            strada_to_bool h (Some a) = Some (\<not> (cstr bytes = [] \<or> cstr bytes = ''0''))) \<and>
         (\<forall>av. data v = STRADA_ARRAY (Some av) \<longrightarrow>
            strada_to_bool h (Some a) = Some (elements av \<noteq> [])) \<and>
         (\<forall>hv. data v = STRADA_HASH (Some hv) \<longrightarrow>
            strada_to_bool h (Some a) = Some (num_entries hv > 0)) \<and>
         (\<forall>rv. data v = STRADA_REF rv \<longrightarrow> strada_to_bool h (Some a) = strada_to_bool h rv) \<and>
         (\<forall>x. data v \<in> {STRADA_FILEHANDLE x, STRADA_REGEX x, STRADA_CSTRUCT x, STRADA_CPOINTER x}
            \<longrightarrow> strada_to_bool h (Some a) = Some True) \<and>
         (\<forall>fd. data v = STRADA_SOCKET fd \<longrightarrow> strada_to_bool h (Some a) = Some True) \<and>
         (\<forall>cl. data v = STRADA_CLOSURE cl \<longrightarrow> strada_to_bool h (Some a) = Some True)"
proof -
  have nz: "double_nonzero nv \<longleftrightarrow> nv \<noteq> 0 \<and> nv \<noteq> 0x8000000000000000" for nv
    by (simp add: double_nonzero_def double_zero_bits)
  have nulls: "strada_to_bool h None = Some False" "strada_to_int P h None = Some 0"
    "strada_to_num P h None = Some double_zero" "strada_to_str P h None = Some []"
    by (simp_all add: to_bool_null strada_to_int_def strada_to_num_def strada_to_str_def)
  have undef: "data v = STRADA_UNDEF \<longrightarrow>
            strada_to_bool h (Some a) = Some False \<and> strada_to_int P h (Some a) = Some 0 \<and>
            strada_to_num P h (Some a) = Some double_zero \<and> strada_to_str P h (Some a) = Some []"
    using assms
    by (simp add: to_bool_cell strada_to_int_def strada_to_num_def strada_to_str_def)
  have rest: "(\<forall>x. data v \<in> {STRADA_FILEHANDLE x, STRADA_REGEX x, STRADA_CSTRUCT x, STRADA_CPOINTER x}
            \<longrightarrow> strada_to_bool h (Some a) = Some True)"
    "(\<forall>fd. data v = STRADA_SOCKET fd \<longrightarrow> strada_to_bool h (Some a) = Some True)"
    "(\<forall>cl. data v = STRADA_CLOSURE cl \<longrightarrow> strada_to_bool h (Some a) = Some True)"
    using assms by (auto simp: to_bool_cell)
  show ?thesis
    using nulls undef rest to_bool_leaf[OF assms] by (simp add: nz)
qed

theorem conversions_follow_truthiness_rules_witness:
  "strada_to_bool sample_heap (Some 0) = Some False \<and>
   strada_to_int example_platform sample_heap (Some 0) = Some 0 \<and>
   strada_to_str example_platform sample_heap (Some 0) = Some [] \<and>
   strada_to_bool sample_heap (Some 1) = Some False \<and>
   strada_to_bool sample_heap (Some 2) = Some True \<and>
   strada_to_bool sample_heap (Some 3) = Some False \<and>
   strada_to_bool sample_heap (Some 4) = Some True \<and>
   strada_to_bool sample_heap (Some 5) = Some False \<and>
   strada_to_bool sample_heap (Some 6) = Some False \<and>
   strada_to_bool sample_heap (Some 7) = Some True \<and>
   strada_to_bool sample_heap (Some 8) = Some False \<and>
   strada_to_bool sample_heap (Some 9) = Some True \<and>
   strada_to_bool sample_heap (Some 10) = Some True \<and>
   strada_to_bool sample_heap (Some 11) = Some True \<and>
   strada_to_bool sample_heap (Some 12) = Some True"
proof -
  note T = conversions_follow_truthiness_rules[where P = example_platform and h = sample_heap]
  have c: "cell sample_heap 0 = plain STRADA_UNDEF"
    "cell sample_heap 1 = plain (STRADA_INT 0)"
    "cell sample_heap 2 = plain (STRADA_INT 7)"
    "cell sample_heap 3 = plain (STRADA_STR (Some ''0''))"
    "cell sample_heap 4 = plain (STRADA_STR (Some ''x''))"
    "cell sample_heap 5 = plain (STRADA_STR (Some []))"
    "cell sample_heap 6 = plain (STRADA_ARRAY (Some \<lparr>elements = [], capacity = 8, a_refcount = 1\<rparr>))"
    "cell sample_heap 7 = plain (STRADA_ARRAY (Some \<lparr>elements = [Some 2], capacity = 8, a_refcount = 1\<rparr>))"
    "cell sample_heap 8 = plain (STRADA_NUM 0x8000000000000000)"
    "cell sample_heap 9 = plain (STRADA_NUM double_one)"
    "cell sample_heap 10 = plain (STRADA_REF (Some 2))"
    "cell sample_heap 11 = plain (STRADA_REF (Some 10))"
    "cell sample_heap 12 = plain (STRADA_HASH (Some example_table))"
    by (simp_all add: cell_def sample_heap_def)
  have b0: "strada_to_bool sample_heap (Some 0) = Some False"
    "strada_to_int example_platform sample_heap (Some 0) = Some 0"
    "strada_to_str example_platform sample_heap (Some 0) = Some []"
    using T[OF c(1)[unfolded plain_def]] by simp_all
  have b1: "strada_to_bool sample_heap (Some 1) = Some False"
    using T[OF c(2)[unfolded plain_def]] by simp
  have b2: "strada_to_bool sample_heap (Some 2) = Some True"
    using T[OF c(3)[unfolded plain_def]] by simp
  have b3: "strada_to_bool sample_heap (Some 3) = Some False"
    using T[OF c(4)[unfolded plain_def]] by (simp add: cstr_def)
  have b4: "strada_to_bool sample_heap (Some 4) = Some True"
    using T[OF c(5)[unfolded plain_def]] by (simp add: cstr_def)
  have b5: "strada_to_bool sample_heap (Some 5) = Some False"
    using T[OF c(6)[unfolded plain_def]] by (simp add: cstr_def)
  have b6: "strada_to_bool sample_heap (Some 6) = Some False"
    using T[OF c(7)[unfolded plain_def]] by simp
  have b7: "strada_to_bool sample_heap (Some 7) = Some True"
    using T[OF c(8)[unfolded plain_def]] by simp
  have b8: "strada_to_bool sample_heap (Some 8) = Some False"
    using T[OF c(9)[unfolded plain_def]] by simp
  have b9: "strada_to_bool sample_heap (Some 9) = Some True"
    using T[OF c(10)[unfolded plain_def]] by (simp add: double_one_def)
  have b10: "strada_to_bool sample_heap (Some 10) = Some True"
    using T[OF c(11)[unfolded plain_def]] b2 by simp
  have b11: "strada_to_bool sample_heap (Some 11) = Some True"
    using T[OF c(12)[unfolded plain_def]] b10 by simp
  have b12: "strada_to_bool sample_heap (Some 12) = Some True"
    using T[OF c(13)[unfolded plain_def]] by (simp add: example_table_def)
  show ?thesis
    using b0 b1 b2 b3 b4 b5 b6 b7 b8 b9 b10 b11 b12 by (intro conjI)
qed

section \<open>Reference counts and the moment of release\<close>






lemma set_value_logs [simp]:
  "freed (set_value rt a v) = freed rt" "destroyed (set_value rt a v) = destroyed rt"
  "oop_destroying (set_value rt a v) = oop_destroying rt" "registry (set_value rt a v) = registry rt"
  "slots (set_value rt a v) = slots rt"
  by (simp_all add: set_value_def)







lemma release_calls_refcount [simp]:
  "release_calls ss (v\<lparr>refcount := x\<rparr>) = release_calls ss v"
  by (simp add: release_calls_def)








section \<open>Blessing a value that is no reference\<close>

text \<open>
  C3 fails on the code. \<^verbatim>\<open>strada_bless\<close> does not look at the type of its argument:
  called on an Int it registers the package and leaves the Int with the package tag.
  And a tag put on a reference does not stay on a reference: \<^verbatim>\<open>strada_deref_set\<close>
  through a reference to the blessed object writes an Int into the object in place and
  keeps its tag.
\<close>

theorem bless_tags_a_value_that_is_no_reference:
  "cell (cells int_runtime) 0 =
     Some \<lparr>data = STRADA_INT 5, refcount = 1, blessed_package = None\<rparr> \<and>
   \<not> is_reference (STRADA_INT 5) \<and>
   strada_bless int_runtime (Some 0) (Some ''Counter'') =
     Some (Inr (int_runtime
       \<lparr>cells := [Some \<lparr>data = STRADA_INT 5, refcount = 1, blessed_package = Some ''Counter''\<rparr>],
        registry := \<lparr>oop_packages = [\<lparr>p_name = ''Counter'', parents = [], methods = []\<rparr>],
                     oop_initialized = True\<rparr>\<rparr>)) \<and>
   map_option (is_reference \<circ> data) (cell (cells object_runtime) 0) = Some True \<and>
   map_option (\<lambda>(p, rt). (p, cell (cells rt) 0)) bless_then_deref_set =
     Some (Some 0, Some \<lparr>data = STRADA_INT 5, refcount = 2, blessed_package = Some ''Counter''\<rparr>)"
proof -
  have b: "strada_bless object_runtime (Some 0) (Some ''Counter'') =
     Some (Inr (object_runtime
       \<lparr>cells := [Some \<lparr>data = STRADA_REF (Some 3), refcount = 2, blessed_package = Some ''Counter''\<rparr>,
               Some \<lparr>data = STRADA_REF (Some 0), refcount = 1, blessed_package = None\<rparr>,
               Some \<lparr>data = STRADA_INT 5, refcount = 1, blessed_package = None\<rparr>,
               Some \<lparr>data = STRADA_INT 10, refcount = 1, blessed_package = None\<rparr>],
        registry := \<lparr>oop_packages = [\<lparr>p_name = ''Counter'', parents = [], methods = []\<rparr>],
                     oop_initialized = True\<rparr>\<rparr>))"
    by (simp add: strada_bless_def object_runtime_def cell_def strada_oop_init_def
        oop_get_or_create_package_def OOP_MAX_PACKAGES_def copy_name_def OOP_MAX_NAME_LEN_def
        set_value_def)
  have d: "map_option (\<lambda>(p, rt). (p, cell (cells rt) 0)) bless_then_deref_set =
     Some (Some 0, Some \<lparr>data = STRADA_INT 5, refcount = 2, blessed_package = Some ''Counter''\<rparr>)"
    unfolding bless_then_deref_set_def b
    by (simp add: strada_deref_set_def object_runtime_def cell_def set_value_def)
  have i: "strada_bless int_runtime (Some 0) (Some ''Counter'') =
     Some (Inr (int_runtime
       \<lparr>cells := [Some \<lparr>data = STRADA_INT 5, refcount = 1, blessed_package = Some ''Counter''\<rparr>],
        registry := \<lparr>oop_packages = [\<lparr>p_name = ''Counter'', parents = [], methods = []\<rparr>],
                     oop_initialized = True\<rparr>\<rparr>))"
    by (simp add: strada_bless_def int_runtime_def cell_def strada_oop_init_def
        oop_get_or_create_package_def OOP_MAX_PACKAGES_def copy_name_def OOP_MAX_NAME_LEN_def
        set_value_def)
  have r: "map_option (is_reference \<circ> data) (cell (cells object_runtime) 0) = Some True"
    by (simp add: object_runtime_def cell_def is_reference_def)
  have c: "cell (cells int_runtime) 0 =
     Some \<lparr>data = STRADA_INT 5, refcount = 1, blessed_package = None\<rparr>"
    by (simp add: int_runtime_def cell_def)
  show ?thesis using c i r d by (simp add: is_reference_def)
qed

section \<open>Closures capture a snapshot\<close>













section \<open>Destructors\<close>

lemma validate_Outer: "strada_validate_blessed_package ''Outer''"
  by (simp add: strada_validate_blessed_package_def)

lemma validate_Inner: "strada_validate_blessed_package ''Inner''"
  by (simp add: strada_validate_blessed_package_def)

text \<open>
  C4 fails on the code. \<^verbatim>\<open>oop_destroying\<close> is one flag for the whole process, so while
  a destructor runs no other destructor is called. The \<open>Inner\<close> object has a \<open>DESTROY\<close>
  method, and when its last reference is dropped on its own the method is called once.
  When its last reference is dropped by the destructor of the \<open>Outer\<close> object, the
  \<open>Inner\<close> object is freed and its \<open>DESTROY\<close> is never called.
\<close>

theorem destroy_skipped_for_object_dropped_in_destructor:
  "oop_lookup_method 2 (registry nested_runtime) (Some ''Inner'') (Some ''DESTROY'') = Some (Some 2) \<and>
   map_option destroyed (strada_decref 3 nested_program nested_runtime (Some 1)) = Some [(1, 2)] \<and>
   map_option freed (strada_decref 3 nested_program nested_runtime (Some 1)) = Some [3, 1] \<and>
   map_option destroyed (strada_decref 3 nested_program nested_runtime (Some 0)) = Some [(0, 1)] \<and>
   map_option freed (strada_decref 3 nested_program nested_runtime (Some 0)) = Some [3, 1, 2, 0]"
proof -
  have l: "oop_lookup_method 2 (registry nested_runtime) (Some ''Inner'') (Some ''DESTROY'') = Some (Some 2)"
    by (simp add: oop_lookup_method_def nested_runtime_def numeral_2_eq_2)
  have i: "strada_decref 3 nested_program nested_runtime (Some 1) =
     Some (nested_runtime
       \<lparr>cells := [Some \<lparr>data = STRADA_REF (Some 2), refcount = 1, blessed_package = Some ''Outer''\<rparr>,
                  Some \<lparr>data = STRADA_REF (Some 3), refcount = 0, blessed_package = None\<rparr>,
                  Some \<lparr>data = STRADA_INT 10, refcount = 1, blessed_package = None\<rparr>,
                  Some \<lparr>data = STRADA_INT 20, refcount = 0, blessed_package = None\<rparr>],
        freed := [3, 1], destroyed := [(1, 2)]\<rparr>)"
    by (simp add: numeral_3_eq_3 nested_runtime_def cell_def set_value_def is_reference_def
        validate_Inner oop_lookup_method_def nested_program_def clear_blessed_def
        release_calls_def)
  have or: "strada_decref 3 nested_program nested_runtime (Some 0) =
     Some (nested_runtime
       \<lparr>cells := [Some \<lparr>data = STRADA_REF (Some 2), refcount = 0, blessed_package = None\<rparr>,
                  Some \<lparr>data = STRADA_REF (Some 3), refcount = 0, blessed_package = None\<rparr>,
                  Some \<lparr>data = STRADA_INT 10, refcount = 0, blessed_package = None\<rparr>,
                  Some \<lparr>data = STRADA_INT 20, refcount = 0, blessed_package = None\<rparr>],
        freed := [3, 1, 2, 0], destroyed := [(0, 1)]\<rparr>)"
    by (simp add: numeral_3_eq_3 nested_runtime_def cell_def set_value_def is_reference_def
        validate_Inner validate_Outer oop_lookup_method_def nested_program_def
        clear_blessed_def release_calls_def)
  show ?thesis
    unfolding l i or by simp
qed

end
